theory Spec2Isabelle
  imports Complex_Main "HOL-Library.Sublist" "HOL-Library.Word"
begin

section \<open>JavaScript numbers\<close>

text \<open>
  A JavaScript number is modelled as a real, \<open>NaN\<close> or one of the two infinities.
  Rounding of doubles and the sign of zero are not modelled: arithmetic on finite
  numbers is exact. Design-token numbers and scores are finite and are kept as reals.
\<close>

datatype number = NaN | Num real | PInf | NInf

fun inf_of_sign :: "real \<Rightarrow> number" where
  "inf_of_sign s = (if s = 0 then NaN else if 0 < s then PInf else NInf)"

fun n_sgn :: "number \<Rightarrow> real" where
  "n_sgn NaN = 0"
| "n_sgn (Num x) = sgn x"
| "n_sgn PInf = 1"
| "n_sgn NInf = - 1"

fun n_neg :: "number \<Rightarrow> number" where
  "n_neg NaN = NaN"
| "n_neg (Num x) = Num (- x)"
| "n_neg PInf = NInf"
| "n_neg NInf = PInf"

fun n_add :: "number \<Rightarrow> number \<Rightarrow> number" where
  "n_add NaN b = NaN"
| "n_add a NaN = NaN"
| "n_add (Num x) (Num y) = Num (x + y)"
| "n_add (Num x) b = b"
| "n_add a (Num y) = a"
| "n_add PInf PInf = PInf"
| "n_add NInf NInf = NInf"
| "n_add PInf NInf = NaN"
| "n_add NInf PInf = NaN"

definition n_sub :: "number \<Rightarrow> number \<Rightarrow> number" where
  "n_sub a b = n_add a (n_neg b)"

fun n_abs :: "number \<Rightarrow> number" where
  "n_abs NaN = NaN"
| "n_abs (Num x) = Num \<bar>x\<bar>"
| "n_abs PInf = PInf"
| "n_abs NInf = PInf"

fun n_mul :: "number \<Rightarrow> number \<Rightarrow> number" where
  "n_mul NaN b = NaN"
| "n_mul a NaN = NaN"
| "n_mul (Num x) (Num y) = Num (x * y)"
| "n_mul a b = inf_of_sign (n_sgn a * n_sgn b)"

fun n_div :: "number \<Rightarrow> number \<Rightarrow> number" where
  "n_div NaN b = NaN"
| "n_div a NaN = NaN"
| "n_div (Num x) (Num y) = (if y = 0 then inf_of_sign (sgn x) else Num (x / y))"
| "n_div (Num x) b = Num 0"
| "n_div a (Num y) = inf_of_sign (n_sgn a * (if 0 \<le> y then 1 else - 1))"
| "n_div a b = NaN"

fun n_lt :: "number \<Rightarrow> number \<Rightarrow> bool" where
  "n_lt NaN b = False"
| "n_lt a NaN = False"
| "n_lt (Num x) (Num y) = (x < y)"
| "n_lt a NInf = False"
| "n_lt PInf b = False"
| "n_lt a b = True"

definition n_gt :: "number \<Rightarrow> number \<Rightarrow> bool" where
  "n_gt a b = n_lt b a"

fun n_le :: "number \<Rightarrow> number \<Rightarrow> bool" where
  "n_le NaN b = False"
| "n_le a NaN = False"
| "n_le a b = (\<not> n_lt b a)"

definition n_ge :: "number \<Rightarrow> number \<Rightarrow> bool" where
  "n_ge a b = n_le b a"

text \<open>\<open>a !== b\<close> on numbers: \<open>NaN\<close> differs from everything, itself included.\<close>

fun n_strict_neq :: "number \<Rightarrow> number \<Rightarrow> bool" where
  "n_strict_neq NaN b = True"
| "n_strict_neq a NaN = True"
| "n_strict_neq a b = (a \<noteq> b)"

text \<open>\<open>a || d\<close> on numbers: \<open>NaN\<close> and \<open>0\<close> are falsy.\<close>

fun n_or :: "number \<Rightarrow> number \<Rightarrow> number" where
  "n_or NaN d = d"
| "n_or (Num x) d = (if x = 0 then d else Num x)"
| "n_or a d = a"

text \<open>\<open>Math.round\<close>: the nearest integer, halves rounded up.\<close>

fun n_round :: "number \<Rightarrow> number" where
  "n_round (Num x) = Num (of_int \<lfloor>x + 1 / 2\<rfloor>)"
| "n_round a = a"

section \<open>Strings and style objects\<close>

text \<open>
  A computed-style object is a JavaScript object read by property name: a map from
  names to strings, \<open>None\<close> where the property is \<open>undefined\<close>.
\<close>

type_synonym ComputedStyleData = "string \<Rightarrow> string option"

text \<open>Truthiness of an optional string: \<open>undefined\<close> and the empty string are falsy.\<close>

fun truthy :: "string option \<Rightarrow> bool" where
  "truthy None = False"
| "truthy (Some s) = (s \<noteq> [])"

text \<open>\<open>s.includes(t)\<close>: \<open>t\<close> occurs in \<open>s\<close> as a contiguous substring.\<close>

fun str_includes :: "string \<Rightarrow> string \<Rightarrow> bool" where
  "str_includes [] t = (t = [])"
| "str_includes (c # s) t = (prefix t (c # s) \<or> str_includes s t)"

text \<open>
  The library and built-in functions the engine calls are parameters of the model:
  \<open>chroma\<close> parses a colour string and is \<open>None\<close> where chroma-js throws,
  \<open>deltaE\<close> is \<open>chroma.deltaE\<close> (a finite distance), \<open>hexUpper\<close> is
  \<open>c.hex().toUpperCase()\<close>, \<open>parseFloat\<close> and \<open>parseInt\<close> (radix 10) read a
  number from a string, and \<open>toLowerCase\<close> is the string method.
\<close>

record 'c js_lib =
  chroma :: "string \<Rightarrow> 'c option"
  deltaE :: "'c \<Rightarrow> 'c \<Rightarrow> real"
  hexUpper :: "'c \<Rightarrow> string"
  parseFloat :: "string \<Rightarrow> number"
  parseInt :: "string \<Rightarrow> number"
  toLowerCase :: "string \<Rightarrow> string"

text \<open>\<open>parseFloat(v)\<close> and \<open>parseInt(v, 10)\<close> of a possibly undefined value.\<close>

fun parseFloatOf :: "('c, 'z) js_lib_scheme \<Rightarrow> string option \<Rightarrow> number" where
  "parseFloatOf lib None = NaN"
| "parseFloatOf lib (Some s) = parseFloat lib s"

fun parseIntOf :: "('c, 'z) js_lib_scheme \<Rightarrow> string option \<Rightarrow> number" where
  "parseIntOf lib None = NaN"
| "parseIntOf lib (Some s) = parseInt lib s"

section \<open>Data model of the comparison engine\<close>

datatype MismatchSeverity = Critical | Major | Minor | Info

datatype MismatchCategory = Color | Typography | Spacing | Layout | Border | Alignment | Size

datatype DOMElement = DOMElement
  (tagName: string)
  (elemId: "string option")
  (className: "string option")
  (computedStyles: ComputedStyleData)
  (children: "DOMElement list")

record FigmaColor =
  colorName :: string
  hex :: string

datatype line_height = LineHeightNum real | LineHeightStr string

record FigmaTypography =
  fontFamily :: string
  fontSize :: real
  fontWeight :: real
  lineHeight :: line_height

record FigmaSpacing =
  spacingName :: string
  spacingValue :: real

record FigmaComponent =
  componentName :: string
  componentStyles :: ComputedStyleData

record FigmaDesignTokens =
  colors :: "FigmaColor list"
  typography :: "FigmaTypography list"
  spacing :: "FigmaSpacing list"

record FigmaAnalysisResult =
  designTokens :: FigmaDesignTokens
  components :: "FigmaComponent list"

record WebAnalysisResult =
  domTree :: "DOMElement list"

text \<open>
  A selector is built from an id, a first class name, a positional path or a tag name.
  The template strings are kept as structure: \<open>SelNth s k\<close> is
  \<open>s > :nth-child(k)\<close> and \<open>SelBody\<close> is \<open>body\<close>.
\<close>

datatype selector = SelId string | SelClass string | SelNth selector nat | SelBody | SelTag string

text \<open>
  Expected and actual values are strings; a template string around a number is kept
  as structure: \<open>NumPx n\<close> is the number followed by \<open>px\<close>, \<open>NumText n\<close> the
  number alone.
\<close>

datatype text_value = Text string | NumPx number | NumText number

record ElementRef =
  selector :: selector
  refTagName :: string
  refId :: "string option"
  refClassName :: "string option"

record StyleMismatch =
  mismatchId :: nat
  category :: MismatchCategory
  severity :: MismatchSeverity
  property :: string
  expectedValue :: text_value
  actualValue :: text_value
  element :: ElementRef
  figmaComponent :: "string option"
  deviation :: number

record Summary =
  total :: nat
  critical :: nat
  major :: nat
  minor :: nat
  info :: nat

record ComparisonResult =
  overallScore :: number
  categoryScores :: "(MismatchCategory \<times> real) list"
  resultMismatches :: "StyleMismatch list"
  summary :: Summary

text \<open>The engine's mutable fields: the mismatch list and the id counter.\<close>

record engine_state =
  mismatches :: "StyleMismatch list"
  mismatchIdCounter :: nat

section \<open>Thresholds\<close>

definition color_deltaE :: real where "color_deltaE = 5"
definition color_critical :: real where "color_critical = 20"
definition color_major :: real where "color_major = 10"
definition fontSize_pixels :: real where "fontSize_pixels = 2"
definition fontSize_critical :: real where "fontSize_critical = 8"
definition fontSize_major :: real where "fontSize_major = 4"
definition spacing_pixels :: real where "spacing_pixels = 4"
definition spacing_critical :: real where "spacing_critical = 16"
definition spacing_major :: real where "spacing_major = 8"
definition borderRadius_pixels :: real where "borderRadius_pixels = 2"
definition borderRadius_critical :: real where "borderRadius_critical = 8"
definition borderRadius_major :: real where "borderRadius_major = 4"
definition lineHeight_ratio :: real where "lineHeight_ratio = 1 / 10"
definition lineHeight_critical :: real where "lineHeight_critical = 3 / 10"
definition lineHeight_major :: real where "lineHeight_major = 2 / 10"

lemmas thresholds =
  color_deltaE_def color_critical_def color_major_def
  fontSize_pixels_def fontSize_critical_def fontSize_major_def
  spacing_pixels_def spacing_critical_def spacing_major_def
  borderRadius_pixels_def borderRadius_critical_def borderRadius_major_def
  lineHeight_ratio_def lineHeight_critical_def lineHeight_major_def

section \<open>Comparison engine\<close>

subsection \<open>Selectors and the mismatch list\<close>

definition firstClass :: "string \<Rightarrow> string" where
  "firstClass cn = takeWhile (\<lambda>c. c \<noteq> CHR '' '') cn"

definition buildSelector :: "DOMElement \<Rightarrow> selector option \<Rightarrow> selector" where
  "buildSelector el path =
     (case (if truthy (elemId el) then elemId el else None) of
        Some i \<Rightarrow> SelId i
      | None \<Rightarrow>
         (case (if truthy (className el) then className el else None) of
            Some cn \<Rightarrow>
              (if firstClass cn \<noteq> [] then SelClass (firstClass cn)
               else (case path of Some p \<Rightarrow> p | None \<Rightarrow> SelTag (tagName el)))
          | None \<Rightarrow> (case path of Some p \<Rightarrow> p | None \<Rightarrow> SelTag (tagName el))))"

definition elementRef :: "DOMElement \<Rightarrow> selector \<Rightarrow> ElementRef" where
  "elementRef el sel =
     \<lparr>selector = sel, refTagName = tagName el, refId = elemId el, refClassName = className el\<rparr>"

text \<open>
  \<open>addMismatch\<close> takes the fields of the object literal and appends the mismatch
  under the next id.
\<close>

definition addMismatch ::
  "MismatchCategory \<Rightarrow> string \<Rightarrow> text_value \<Rightarrow> text_value \<Rightarrow> ElementRef \<Rightarrow> string option \<Rightarrow>
   number \<Rightarrow> MismatchSeverity \<Rightarrow> engine_state \<Rightarrow> engine_state" where
  "addMismatch cat prop expected actual el figComp dev sev st =
     \<lparr>mismatches = mismatches st @
        [\<lparr>mismatchId = Suc (mismatchIdCounter st), category = cat, severity = sev, property = prop,
          expectedValue = expected, actualValue = actual, element = el, figmaComponent = figComp,
          deviation = dev\<rparr>],
      mismatchIdCounter = Suc (mismatchIdCounter st)\<rparr>"

subsection \<open>Severity\<close>

definition getColorSeverity :: "number \<Rightarrow> MismatchSeverity" where
  "getColorSeverity d =
     (if n_ge d (Num color_critical) then Critical
      else if n_ge d (Num color_major) then Major else Minor)"

definition getFontSizeSeverity :: "number \<Rightarrow> MismatchSeverity" where
  "getFontSizeSeverity d =
     (if n_ge d (Num fontSize_critical) then Critical
      else if n_ge d (Num fontSize_major) then Major else Minor)"

definition getSpacingSeverity :: "number \<Rightarrow> MismatchSeverity" where
  "getSpacingSeverity d =
     (if n_ge d (Num spacing_critical) then Critical
      else if n_ge d (Num spacing_major) then Major else Minor)"

definition getBorderRadiusSeverity :: "number \<Rightarrow> MismatchSeverity" where
  "getBorderRadiusSeverity d =
     (if n_ge d (Num borderRadius_critical) then Critical
      else if n_ge d (Num borderRadius_major) then Major else Minor)"

definition getLineHeightSeverity :: "number \<Rightarrow> MismatchSeverity" where
  "getLineHeightSeverity d =
     (if n_ge d (Num lineHeight_critical) then Critical
      else if n_ge d (Num lineHeight_major) then Major else Minor)"

subsection \<open>Tree traversal\<close>

text \<open>
  The three \<open>processElement\<close> closures share one shape: build the selector, run the
  checks of the element, then visit the children in order, child \<open>index\<close> under the
  path \<open>selector > :nth-child(index + 1)\<close>. The checks are the parameter \<open>check\<close>.
  \<open>domTree.forEach\<close> is the same loop under the path \<open>body\<close>.
\<close>

fun processElement ::
  "(DOMElement \<Rightarrow> selector \<Rightarrow> engine_state \<Rightarrow> engine_state) \<Rightarrow>
   DOMElement \<Rightarrow> selector option \<Rightarrow> engine_state \<Rightarrow> engine_state"
and processChildren ::
  "(DOMElement \<Rightarrow> selector \<Rightarrow> engine_state \<Rightarrow> engine_state) \<Rightarrow>
   selector \<Rightarrow> nat \<Rightarrow> DOMElement list \<Rightarrow> engine_state \<Rightarrow> engine_state"
where
  "processElement check (DOMElement tn i cn styles ch) path st =
     (let sel = buildSelector (DOMElement tn i cn styles ch) path
      in processChildren check sel 0 ch (check (DOMElement tn i cn styles ch) sel st))"
| "processChildren check sel index [] st = st"
| "processChildren check sel index (child # rest) st =
     processChildren check sel (Suc index) rest
       (processElement check child (Some (SelNth sel (Suc index))) st)"

subsection \<open>Colours\<close>

record ColorMismatch =
  cmExpected :: string
  cmActual :: string
  cmDeviation :: number

text \<open>
  One iteration of the loop over the tokens: a token whose hex does not parse is
  skipped (the inner \<open>catch\<close>), a strictly smaller distance replaces the minimum.
\<close>

definition colorStep ::
  "('c, 'z) js_lib_scheme \<Rightarrow> 'c \<Rightarrow> FigmaColor \<Rightarrow> FigmaColor \<times> number \<Rightarrow> FigmaColor \<times> number" where
  "colorStep lib actualChroma figmaColor acc =
     (case chroma lib (hex figmaColor) of
        None \<Rightarrow> acc
      | Some figmaChroma \<Rightarrow>
          (if n_lt (Num (deltaE lib actualChroma figmaChroma)) (snd acc)
           then (figmaColor, Num (deltaE lib actualChroma figmaChroma)) else acc))"

text \<open>
  \<open>None\<close> is \<open>null\<close>. An actual colour that does not parse throws into the outer
  \<open>catch\<close>; so does reading \<open>hex\<close> of \<open>figmaColors[0]\<close> when the list is empty.
\<close>

definition findColorMismatch ::
  "('c, 'z) js_lib_scheme \<Rightarrow> string \<Rightarrow> FigmaColor list \<Rightarrow> ColorMismatch option" where
  "findColorMismatch lib actualColor figmaColors =
     (case chroma lib actualColor of
        None \<Rightarrow> None
      | Some actualChroma \<Rightarrow>
          (case figmaColors of
             [] \<Rightarrow> None
           | c0 # _ \<Rightarrow>
               (let r = fold (colorStep lib actualChroma) figmaColors (c0, PInf)
                in if n_le (snd r) (Num color_deltaE) then None
                   else Some \<lparr>cmExpected = hex (fst r), cmActual = hexUpper lib actualChroma,
                              cmDeviation = snd r\<rparr>)))"

definition reportColor ::
  "('c, 'z) js_lib_scheme \<Rightarrow> FigmaColor list \<Rightarrow> DOMElement \<Rightarrow> selector \<Rightarrow> MismatchCategory \<Rightarrow>
   string \<Rightarrow> engine_state \<Rightarrow> engine_state" where
  "reportColor lib figmaColors el sel cat prop st =
     (case computedStyles el prop of
        None \<Rightarrow> st
      | Some v \<Rightarrow>
          (case findColorMismatch lib v figmaColors of
             None \<Rightarrow> st
           | Some cm \<Rightarrow>
               addMismatch cat prop (Text (cmExpected cm)) (Text (cmActual cm)) (elementRef el sel)
                 None (cmDeviation cm) (getColorSeverity (cmDeviation cm)) st))"

definition colorChecks ::
  "('c, 'z) js_lib_scheme \<Rightarrow> FigmaColor list \<Rightarrow> DOMElement \<Rightarrow> selector \<Rightarrow> engine_state \<Rightarrow>
   engine_state" where
  "colorChecks lib figmaColors el sel st =
     (let styles = computedStyles el;
          st1 = (if truthy (styles ''color'')
                 then reportColor lib figmaColors el sel Color ''color'' st else st);
          st2 = (if truthy (styles ''backgroundColor'')
                    \<and> styles ''backgroundColor'' \<noteq> Some ''rgba(0, 0, 0, 0)''
                 then reportColor lib figmaColors el sel Color ''backgroundColor'' st1 else st1);
          st3 = (if truthy (styles ''borderColor'') \<and> styles ''borderWidth'' \<noteq> Some ''0px''
                 then reportColor lib figmaColors el sel Border ''borderColor'' st2 else st2)
      in st3)"

definition compareColors ::
  "('c, 'z) js_lib_scheme \<Rightarrow> DOMElement list \<Rightarrow> FigmaColor list \<Rightarrow> engine_state \<Rightarrow> engine_state" where
  "compareColors lib tree figmaColors st =
     (if figmaColors = [] then st
      else processChildren (colorChecks lib figmaColors) SelBody 0 tree st)"

subsection \<open>Typography\<close>

text \<open>
  \<open>findClosestTypography\<close>: \<open>prop\<close> reads the compared field of a token. The
  minimum starts at the first token and is replaced on a strictly smaller difference.
\<close>

definition closestStep ::
  "number \<Rightarrow> (FigmaTypography \<Rightarrow> real) \<Rightarrow> FigmaTypography \<Rightarrow> FigmaTypography \<times> number \<Rightarrow>
   FigmaTypography \<times> number" where
  "closestStep v prop typo acc =
     (if n_lt (n_abs (n_sub v (Num (prop typo)))) (snd acc)
      then (typo, n_abs (n_sub v (Num (prop typo)))) else acc)"

definition findClosestTypography ::
  "number \<Rightarrow> FigmaTypography list \<Rightarrow> (FigmaTypography \<Rightarrow> real) \<Rightarrow> FigmaTypography option" where
  "findClosestTypography v typos prop =
     (case typos of
        [] \<Rightarrow> None
      | t0 # _ \<Rightarrow> Some (fst (fold (closestStep v prop) typos (t0, n_abs (n_sub v (Num (prop t0)))))))"

definition fontSizeCheck ::
  "('c, 'z) js_lib_scheme \<Rightarrow> FigmaTypography list \<Rightarrow> DOMElement \<Rightarrow> selector \<Rightarrow> engine_state \<Rightarrow>
   engine_state" where
  "fontSizeCheck lib typos el sel st =
     (case computedStyles el ''fontSize'' of
        None \<Rightarrow> st
      | Some fs \<Rightarrow>
          (if fs = [] then st
           else
             (let actualSize = parseFloat lib fs
              in case findClosestTypography actualSize typos fontSize of
                   None \<Rightarrow> st
                 | Some closestTypo \<Rightarrow>
                     (let d = n_abs (n_sub actualSize (Num (fontSize closestTypo)))
                      in if n_gt d (Num fontSize_pixels)
                         then addMismatch Typography ''fontSize'' (NumPx (Num (fontSize closestTypo)))
                                (Text fs) (elementRef el sel) None d (getFontSizeSeverity d) st
                         else st))))"

definition fontWeightCheck ::
  "('c, 'z) js_lib_scheme \<Rightarrow> FigmaTypography list \<Rightarrow> DOMElement \<Rightarrow> selector \<Rightarrow> engine_state \<Rightarrow>
   engine_state" where
  "fontWeightCheck lib typos el sel st =
     (case computedStyles el ''fontWeight'' of
        None \<Rightarrow> st
      | Some fw \<Rightarrow>
          (if fw = [] then st
           else
             (let actualWeight = parseInt lib fw
              in case findClosestTypography actualWeight typos fontWeight of
                   None \<Rightarrow> st
                 | Some closestTypo \<Rightarrow>
                     (if n_strict_neq actualWeight (Num (fontWeight closestTypo))
                      then addMismatch Typography ''fontWeight''
                             (NumText (Num (fontWeight closestTypo))) (Text fw) (elementRef el sel)
                             None (n_abs (n_sub actualWeight (Num (fontWeight closestTypo)))) Minor st
                      else st))))"

text \<open>
  The loop over the tokens of the line-height check: the first token whose ratio is
  further than the tolerance from the element's ratio raises the mismatch and ends the
  loop. \<open>fs\<close> is the element's font size (\<open>parseFloat(styles.fontSize) || 16\<close>).
\<close>

fun lineHeightLoop ::
  "number \<Rightarrow> number \<Rightarrow> string \<Rightarrow> ElementRef \<Rightarrow> FigmaTypography list \<Rightarrow> engine_state \<Rightarrow>
   engine_state" where
  "lineHeightLoop actualRatio fs actualText ref [] st = st"
| "lineHeightLoop actualRatio fs actualText ref (typo # rest) st =
     (let expectedLineHeight =
            (case lineHeight typo of
               LineHeightNum n \<Rightarrow> Num n
             | LineHeightStr _ \<Rightarrow> n_mul fs (Num (3 / 2)));
          expectedRatio = n_div expectedLineHeight (Num (fontSize typo));
          d = n_abs (n_sub actualRatio expectedRatio)
      in if n_gt d (Num lineHeight_ratio)
         then addMismatch Typography ''lineHeight'' (NumPx expectedLineHeight) (Text actualText) ref
                None (n_mul d (Num 100)) (getLineHeightSeverity d) st
         else lineHeightLoop actualRatio fs actualText ref rest st)"

definition lineHeightCheck ::
  "('c, 'z) js_lib_scheme \<Rightarrow> FigmaTypography list \<Rightarrow> DOMElement \<Rightarrow> selector \<Rightarrow> engine_state \<Rightarrow>
   engine_state" where
  "lineHeightCheck lib typos el sel st =
     (case computedStyles el ''lineHeight'' of
        None \<Rightarrow> st
      | Some lh \<Rightarrow>
          (if lh = [] \<or> lh = ''normal'' then st
           else
             (let actualLineHeight = parseFloat lib lh;
                  fs = n_or (parseFloatOf lib (computedStyles el ''fontSize'')) (Num 16);
                  actualRatio = n_div actualLineHeight fs
              in lineHeightLoop actualRatio fs lh (elementRef el sel) typos st)))"

definition typographyChecks ::
  "('c, 'z) js_lib_scheme \<Rightarrow> FigmaTypography list \<Rightarrow> DOMElement \<Rightarrow> selector \<Rightarrow> engine_state \<Rightarrow>
   engine_state" where
  "typographyChecks lib typos el sel st =
     lineHeightCheck lib typos el sel
       (fontWeightCheck lib typos el sel (fontSizeCheck lib typos el sel st))"

definition compareTypography ::
  "('c, 'z) js_lib_scheme \<Rightarrow> DOMElement list \<Rightarrow> FigmaTypography list \<Rightarrow> engine_state \<Rightarrow>
   engine_state" where
  "compareTypography lib tree typos st =
     (if typos = [] then st
      else processChildren (typographyChecks lib typos) SelBody 0 tree st)"

subsection \<open>Spacing and border radius\<close>

record SpacingMismatch =
  smExpected :: real
  smDeviation :: number

definition spacingStep :: "number \<Rightarrow> real \<Rightarrow> real \<times> number \<Rightarrow> real \<times> number" where
  "spacingStep actual v acc =
     (if n_lt (n_abs (n_sub actual (Num v))) (snd acc)
      then (v, n_abs (n_sub actual (Num v))) else acc)"

definition findSpacingMismatch :: "number \<Rightarrow> real list \<Rightarrow> SpacingMismatch option" where
  "findSpacingMismatch actual spacingValues =
     (case spacingValues of
        [] \<Rightarrow> None
      | v0 # _ \<Rightarrow>
          (let r = fold (spacingStep actual) spacingValues (v0, n_abs (n_sub actual (Num v0)))
           in if n_le (snd r) (Num spacing_pixels) then None
              else Some \<lparr>smExpected = fst r, smDeviation = snd r\<rparr>))"

text \<open>
  The check of one padding or margin side, and of the gap: the value is
  \<open>parseFloat(styles[prop]) || 0\<close>, and only a value above zero is compared.
\<close>

definition spacingPropCheck ::
  "('c, 'z) js_lib_scheme \<Rightarrow> real list \<Rightarrow> DOMElement \<Rightarrow> selector \<Rightarrow> string \<Rightarrow> engine_state \<Rightarrow>
   engine_state" where
  "spacingPropCheck lib spacingValues el sel prop st =
     (let v = n_or (parseFloatOf lib (computedStyles el prop)) (Num 0)
      in if n_gt v (Num 0)
         then (case findSpacingMismatch v spacingValues of
                 None \<Rightarrow> st
               | Some m \<Rightarrow>
                   addMismatch Spacing prop (NumPx (Num (smExpected m))) (NumPx v) (elementRef el sel)
                     None (smDeviation m) (getSpacingSeverity (smDeviation m)) st)
         else st)"

definition paddingProps :: "string list" where
  "paddingProps = [''paddingTop'', ''paddingRight'', ''paddingBottom'', ''paddingLeft'']"

definition marginProps :: "string list" where
  "marginProps = [''marginTop'', ''marginRight'', ''marginBottom'', ''marginLeft'']"

definition gapCheck ::
  "('c, 'z) js_lib_scheme \<Rightarrow> real list \<Rightarrow> DOMElement \<Rightarrow> selector \<Rightarrow> engine_state \<Rightarrow> engine_state" where
  "gapCheck lib spacingValues el sel st =
     (if truthy (computedStyles el ''gap'')
      then spacingPropCheck lib spacingValues el sel ''gap'' st else st)"

definition borderRadiusCheck ::
  "('c, 'z) js_lib_scheme \<Rightarrow> real list \<Rightarrow> DOMElement \<Rightarrow> selector \<Rightarrow> engine_state \<Rightarrow> engine_state" where
  "borderRadiusCheck lib spacingValues el sel st =
     (if truthy (computedStyles el ''borderRadius'')
      then
        (let v = n_or (parseFloatOf lib (computedStyles el ''borderRadius'')) (Num 0)
         in if n_gt v (Num 0)
            then (case findSpacingMismatch v spacingValues of
                    None \<Rightarrow> st
                  | Some m \<Rightarrow>
                      (if n_gt (smDeviation m) (Num borderRadius_pixels)
                       then addMismatch Border ''borderRadius'' (NumPx (Num (smExpected m))) (NumPx v)
                              (elementRef el sel) None (smDeviation m)
                              (getBorderRadiusSeverity (smDeviation m)) st
                       else st))
            else st)
      else st)"

definition spacingChecks ::
  "('c, 'z) js_lib_scheme \<Rightarrow> real list \<Rightarrow> DOMElement \<Rightarrow> selector \<Rightarrow> engine_state \<Rightarrow> engine_state" where
  "spacingChecks lib spacingValues el sel st =
     (let st1 = fold (spacingPropCheck lib spacingValues el sel) paddingProps st;
          st2 = fold (spacingPropCheck lib spacingValues el sel) marginProps st1;
          st3 = gapCheck lib spacingValues el sel st2
      in borderRadiusCheck lib spacingValues el sel st3)"

definition compareSpacing ::
  "('c, 'z) js_lib_scheme \<Rightarrow> DOMElement list \<Rightarrow> FigmaSpacing list \<Rightarrow> engine_state \<Rightarrow> engine_state" where
  "compareSpacing lib tree figmaSpacing st =
     (if figmaSpacing = [] then st
      else processChildren (spacingChecks lib (map spacingValue figmaSpacing)) SelBody 0 tree st)"

subsection \<open>Component matching\<close>

definition getCategoryForProperty :: "string \<Rightarrow> MismatchCategory" where
  "getCategoryForProperty p =
     (if p \<in> set [''color'', ''backgroundColor''] then Color
      else if p \<in> set [''fontSize'', ''fontFamily'', ''fontWeight'', ''lineHeight'', ''letterSpacing'']
        then Typography
      else if p \<in> set [''margin'', ''padding'', ''gap''] \<or> prefix ''margin'' p \<or> prefix ''padding'' p
        then Spacing
      else if p \<in> set [''borderRadius'', ''borderWidth'', ''borderColor''] then Border
      else if p \<in> set [''width'', ''height''] then Size
      else if p \<in> set [''textAlign'', ''justifyContent'', ''alignItems''] then Alignment
      else Layout)"

text \<open>\<open>s?.toLowerCase() || ''\<close> of an optional string.\<close>

fun lowerOrEmpty :: "('c, 'z) js_lib_scheme \<Rightarrow> string option \<Rightarrow> string" where
  "lowerOrEmpty lib None = []"
| "lowerOrEmpty lib (Some s) = toLowerCase lib s"

fun findInTree :: "('c, 'z) js_lib_scheme \<Rightarrow> string \<Rightarrow> DOMElement list \<Rightarrow> DOMElement option" where
  "findInTree lib cname [] = None"
| "findInTree lib cname (DOMElement tn i cn styles ch # rest) =
     (if str_includes (lowerOrEmpty lib i) cname \<or> str_includes (lowerOrEmpty lib cn) cname
      then Some (DOMElement tn i cn styles ch)
      else (case findInTree lib cname ch of
              Some found \<Rightarrow> Some found
            | None \<Rightarrow> findInTree lib cname rest))"

definition findMatchingElement ::
  "('c, 'z) js_lib_scheme \<Rightarrow> DOMElement list \<Rightarrow> FigmaComponent \<Rightarrow> DOMElement option" where
  "findMatchingElement lib tree figComp = findInTree lib (toLowerCase lib (componentName figComp)) tree"

definition styleProps :: "string list" where
  "styleProps = [''fontSize'', ''fontWeight'', ''lineHeight'', ''padding'', ''margin'', ''borderRadius'']"

definition elementStyleStep ::
  "('c, 'z) js_lib_scheme \<Rightarrow> DOMElement \<Rightarrow> FigmaComponent \<Rightarrow> string \<Rightarrow> engine_state \<Rightarrow> engine_state" where
  "elementStyleStep lib el figComp prop st =
     (case (componentStyles figComp prop, computedStyles el prop) of
        (Some e, Some a) \<Rightarrow>
          (if e \<noteq> [] \<and> a \<noteq> [] then
             (let expected = n_or (parseFloat lib e) (Num 0);
                  actual = n_or (parseFloat lib a) (Num 0);
                  d = n_abs (n_sub expected actual)
              in if n_gt d (Num spacing_pixels)
                 then addMismatch (getCategoryForProperty prop) prop (Text e) (Text a)
                        (elementRef el (buildSelector el None)) (Some (componentName figComp)) d Major st
                 else st)
           else st)
      | _ \<Rightarrow> st)"

definition compareElementStyles ::
  "('c, 'z) js_lib_scheme \<Rightarrow> DOMElement \<Rightarrow> FigmaComponent \<Rightarrow> engine_state \<Rightarrow> engine_state" where
  "compareElementStyles lib el figComp st = fold (elementStyleStep lib el figComp) styleProps st"

text \<open>
  A component always has a style object, so the test \<open>figmaComponent.styles\<close> of
  \<open>compareComponents\<close> holds whenever an element was found.
\<close>

definition componentStep ::
  "('c, 'z) js_lib_scheme \<Rightarrow> DOMElement list \<Rightarrow> FigmaComponent \<Rightarrow> engine_state \<Rightarrow> engine_state" where
  "componentStep lib tree figComp st =
     (case findMatchingElement lib tree figComp of
        None \<Rightarrow> st
      | Some el \<Rightarrow> compareElementStyles lib el figComp st)"

definition compareComponents ::
  "('c, 'z) js_lib_scheme \<Rightarrow> DOMElement list \<Rightarrow> FigmaComponent list \<Rightarrow> engine_state \<Rightarrow>
   engine_state" where
  "compareComponents lib tree figmaComponents st = fold (componentStep lib tree) figmaComponents st"

subsection \<open>Scores\<close>

definition categories :: "MismatchCategory list" where
  "categories = [Color, Typography, Spacing, Layout, Border, Alignment, Size]"

fun penalty :: "MismatchSeverity \<Rightarrow> real" where
  "penalty Critical = 15"
| "penalty Major = 10"
| "penalty Minor = 5"
| "penalty Info = 2"

definition categoryScore :: "StyleMismatch list \<Rightarrow> MismatchCategory \<Rightarrow> real" where
  "categoryScore ms c =
     (let categoryMismatches = filter (\<lambda>m. category m = c) ms
      in if categoryMismatches = [] then 100
         else max 0 (100 - fold (\<lambda>m deduction. deduction + penalty (severity m)) categoryMismatches 0))"

text \<open>
  The score object is a list of entries in insertion order, the order in which
  \<open>Object.entries\<close> reads it back.
\<close>

definition calculateCategoryScores :: "StyleMismatch list \<Rightarrow> (MismatchCategory \<times> real) list" where
  "calculateCategoryScores ms = map (\<lambda>c. (c, categoryScore ms c)) categories"

definition weights :: "(MismatchCategory \<times> real) list" where
  "weights =
     [(Color, 2 / 10), (Typography, 2 / 10), (Spacing, 15 / 100), (Layout, 15 / 100),
      (Border, 1 / 10), (Alignment, 1 / 10), (Size, 1 / 10)]"

text \<open>\<open>weights[category] || 0.1\<close>: a missing or zero weight falls back to 0.1.\<close>

definition weightOf :: "MismatchCategory \<Rightarrow> real" where
  "weightOf c = (case map_of weights c of None \<Rightarrow> 1 / 10 | Some w \<Rightarrow> if w = 0 then 1 / 10 else w)"

text \<open>The loop of \<open>calculateOverallScore\<close>: the pair is (weightedSum, totalWeight).\<close>

definition weightStep :: "MismatchCategory \<times> real \<Rightarrow> real \<times> real \<Rightarrow> real \<times> real" where
  "weightStep entry acc = (fst acc + snd entry * weightOf (fst entry), snd acc + weightOf (fst entry))"

definition weightTotals :: "(MismatchCategory \<times> real) list \<Rightarrow> real \<times> real" where
  "weightTotals scores = fold weightStep scores (0, 0)"

definition calculateOverallScore :: "(MismatchCategory \<times> real) list \<Rightarrow> number" where
  "calculateOverallScore scores =
     n_round (n_div (Num (fst (weightTotals scores))) (Num (snd (weightTotals scores))))"

definition calculateSummary :: "StyleMismatch list \<Rightarrow> Summary" where
  "calculateSummary ms =
     \<lparr>total = length ms,
      critical = length (filter (\<lambda>m. severity m = Critical) ms),
      major = length (filter (\<lambda>m. severity m = Major) ms),
      minor = length (filter (\<lambda>m. severity m = Minor) ms),
      info = length (filter (\<lambda>m. severity m = Info) ms)\<rparr>"

subsection \<open>The comparison\<close>

text \<open>
  \<open>runComparisons\<close> is the part of \<open>compare\<close> that fills the mismatch list, from
  the reset fields; \<open>compare\<close> adds the scores and the summary. The timestamp of the
  result is left out.
\<close>

definition runComparisons ::
  "('c, 'z) js_lib_scheme \<Rightarrow> WebAnalysisResult \<Rightarrow> FigmaAnalysisResult \<Rightarrow> engine_state" where
  "runComparisons lib webAnalysis figmaAnalysis =
     (let tokens = designTokens figmaAnalysis;
          tree = domTree webAnalysis;
          st0 = \<lparr>mismatches = [], mismatchIdCounter = 0\<rparr>;
          st1 = compareColors lib tree (colors tokens) st0;
          st2 = compareTypography lib tree (typography tokens) st1;
          st3 = compareSpacing lib tree (spacing tokens) st2
      in if components figmaAnalysis \<noteq> [] \<and> tree \<noteq> []
         then compareComponents lib tree (components figmaAnalysis) st3 else st3)"

definition compare ::
  "('c, 'z) js_lib_scheme \<Rightarrow> WebAnalysisResult \<Rightarrow> FigmaAnalysisResult \<Rightarrow> ComparisonResult" where
  "compare lib webAnalysis figmaAnalysis =
     (let ms = mismatches (runComparisons lib webAnalysis figmaAnalysis);
          scores = calculateCategoryScores ms
      in \<lparr>overallScore = calculateOverallScore scores, categoryScores = scores,
          resultMismatches = ms, summary = calculateSummary ms\<rparr>)"

section \<open>Pixel diff engine\<close>

text \<open>
  An image is its dimensions and its RGBA bytes, four per pixel in row-major order.
  Bounding boxes hold pixel coordinates, which are integers.
\<close>

record PNG =
  pngWidth :: nat
  pngHeight :: nat
  pngData :: "8 word list"

record BoundingBox =
  bbX :: int
  bbY :: int
  bbWidth :: int
  bbHeight :: int

text \<open>
  \<open>n << 2\<close>: the operand is taken as a 32-bit integer, shifted, and read back signed.
\<close>

definition shl2 :: "int \<Rightarrow> int" where
  "shl2 n = sint (push_bit 2 (word_of_int n :: 32 word))"

text \<open>\<open>data[i]\<close>: \<open>None\<close> is \<open>undefined\<close>, read outside the buffer.\<close>

definition byteAt :: "8 word list \<Rightarrow> int \<Rightarrow> 8 word option" where
  "byteAt d i = (if 0 \<le> i \<and> nat i < length d then Some (d ! nat i) else None)"

text \<open>\<open>data[i] = v\<close>: a write outside the buffer is ignored.\<close>

definition setByte :: "8 word list \<Rightarrow> int \<Rightarrow> 8 word \<Rightarrow> 8 word list" where
  "setByte d i v = (if 0 \<le> i then d[nat i := v] else d)"

text \<open>The diff colour test: red 255, green 0, blue 0.\<close>

definition isDiffPixel :: "8 word list \<Rightarrow> int \<Rightarrow> bool" where
  "isDiffPixel d idx =
     (byteAt d idx = Some 255 \<and> byteAt d (idx + 1) = Some 0 \<and> byteAt d (idx + 2) = Some 0)"

subsection \<open>Flood fill\<close>

record fill_state =
  minX :: int
  maxX :: int
  minY :: int
  maxY :: int
  pixelCount :: nat

definition inImage :: "PNG \<Rightarrow> int \<Rightarrow> int \<Rightarrow> bool" where
  "inImage img px py =
     (\<not> (px < 0 \<or> px \<ge> int (pngWidth img) \<or> py < 0 \<or> py \<ge> int (pngHeight img)))"

definition pixelKey :: "PNG \<Rightarrow> int \<Rightarrow> int \<Rightarrow> int" where
  "pixelKey img px py = py * int (pngWidth img) + px"

text \<open>The number of pixels of the image not yet visited: the loop's measure.\<close>

definition unvisited :: "PNG \<Rightarrow> int set \<Rightarrow> nat" where
  "unvisited img visited = card ({0 ..< int (pngWidth img) * int (pngHeight img)} - visited)"

lemma pixelKey_range:
  assumes "inImage img px py"
  shows "pixelKey img px py \<in> {0 ..< int (pngWidth img) * int (pngHeight img)}"
proof -
  let ?w = "int (pngWidth img)" and ?h = "int (pngHeight img)"
  from assms have b: "0 \<le> px" "px < ?w" "0 \<le> py" "py + 1 \<le> ?h"
    by (auto simp: inImage_def)
  have "py * ?w + px < (py + 1) * ?w" using b by (simp add: algebra_simps)
  also have "\<dots> \<le> ?h * ?w" using b by (intro mult_right_mono) auto
  finally have "py * ?w + px < ?w * ?h" by (simp add: mult.commute)
  moreover have "0 \<le> py * ?w + px" using b by simp
  ultimately show ?thesis by (simp add: pixelKey_def)
qed

lemma unvisited_insert:
  assumes "inImage img px py" "pixelKey img px py \<notin> visited"
  shows "unvisited img (insert (pixelKey img px py) visited) < unvisited img visited"
proof -
  let ?U = "{0 ..< int (pngWidth img) * int (pngHeight img)}"
  have "pixelKey img px py \<in> ?U - visited" using assms pixelKey_range by blast
  moreover have "?U - insert (pixelKey img px py) visited = (?U - visited) - {pixelKey img px py}"
    by blast
  moreover have "finite (?U - visited)" by simp
  ultimately show ?thesis
    unfolding unvisited_def by (metis card_Diff1_less)
qed

text \<open>
  The \<open>while\<close> loop of \<open>floodFillRegion\<close>. The stack is a list whose head is the
  top: \<open>pop\<close> takes the head, and the four neighbours are pushed so that the last
  pushed, \<open>(x, y - 1)\<close>, is on top. The loop ends when the stack is empty or, after
  a push, longer than 100000 entries.
\<close>

function floodLoop ::
  "PNG \<Rightarrow> (int \<times> int) list \<Rightarrow> int set \<Rightarrow> fill_state \<Rightarrow> fill_state \<times> int set" where
  "floodLoop img [] visited fs = (fs, visited)"
| "floodLoop img ((px, py) # rest) visited fs =
     (if \<not> inImage img px py \<or> pixelKey img px py \<in> visited
      then floodLoop img rest visited fs
      else if \<not> isDiffPixel (pngData img) (shl2 (int (pngWidth img) * py + px))
      then floodLoop img rest visited fs
      else if length ((px, py - 1) # (px, py + 1) # (px - 1, py) # (px + 1, py) # rest) > 100000
      then (\<lparr>minX = min (minX fs) px, maxX = max (maxX fs) px, minY = min (minY fs) py,
             maxY = max (maxY fs) py, pixelCount = Suc (pixelCount fs)\<rparr>,
            insert (pixelKey img px py) visited)
      else floodLoop img ((px, py - 1) # (px, py + 1) # (px - 1, py) # (px + 1, py) # rest)
             (insert (pixelKey img px py) visited)
             \<lparr>minX = min (minX fs) px, maxX = max (maxX fs) px, minY = min (minY fs) py,
              maxY = max (maxY fs) py, pixelCount = Suc (pixelCount fs)\<rparr>)"
  by pat_completeness auto
termination
proof (relation "measures [\<lambda>(img, stack, visited, fs). unvisited img visited,
                          \<lambda>(img, stack, visited, fs). length stack]")
  show "wf (measures [\<lambda>(img, stack, visited, fs). unvisited img visited,
                          \<lambda>(img, stack, visited, fs). length stack])" by simp
qed (auto simp: unvisited_insert)

text \<open>The region found from a start pixel, \<open>None\<close> when it has fewer than 10 pixels.\<close>

definition floodFillRegion ::
  "PNG \<Rightarrow> int \<Rightarrow> int \<Rightarrow> int set \<Rightarrow> BoundingBox option \<times> int set" where
  "floodFillRegion img startX startY visited =
     (case floodLoop img [(startX, startY)] visited
             \<lparr>minX = startX, maxX = startX, minY = startY, maxY = startY, pixelCount = 0\<rparr> of
        (fs, visited') \<Rightarrow>
          (if pixelCount fs < 10 then None
           else Some \<lparr>bbX = minX fs, bbY = minY fs, bbWidth = maxX fs - minX fs + 1,
                      bbHeight = maxY fs - minY fs + 1\<rparr>,
           visited'))"

subsection \<open>Region merge\<close>

definition regionsOverlapOrNear :: "BoundingBox \<Rightarrow> BoundingBox \<Rightarrow> int \<Rightarrow> bool" where
  "regionsOverlapOrNear a b threshold =
     (let aRight = bbX a + bbWidth a;
          aBottom = bbY a + bbHeight a;
          bRight = bbX b + bbWidth b;
          bBottom = bbY b + bbHeight b
      in \<not> (aRight + threshold < bbX b \<or> bRight + threshold < bbX a
             \<or> aBottom + threshold < bbY b \<or> bBottom + threshold < bbY a))"

definition mergeRegions :: "BoundingBox \<Rightarrow> BoundingBox \<Rightarrow> BoundingBox" where
  "mergeRegions a b =
     (let x0 = min (bbX a) (bbX b);
          y0 = min (bbY a) (bbY b);
          right = max (bbX a + bbWidth a) (bbX b + bbWidth b);
          bottom = max (bbY a + bbHeight a) (bbY b + bbHeight b)
      in \<lparr>bbX = x0, bbY = y0, bbWidth = right - x0, bbHeight = bottom - y0\<rparr>)"

text \<open>
  One pass of the inner \<open>for\<close> loop over the indices \<open>js\<close>: the state is the
  current region, the set of used indices and the flag \<open>changed\<close>.
\<close>

fun mergePass ::
  "BoundingBox list \<Rightarrow> int \<Rightarrow> nat list \<Rightarrow> BoundingBox \<times> nat set \<times> bool \<Rightarrow>
   BoundingBox \<times> nat set \<times> bool" where
  "mergePass regions threshold [] acc = acc"
| "mergePass regions threshold (j # js) (current, used, changed) =
     (if j \<in> used then mergePass regions threshold js (current, used, changed)
      else if regionsOverlapOrNear current (regions ! j) threshold
      then mergePass regions threshold js (mergeRegions current (regions ! j), insert j used, True)
      else mergePass regions threshold js (current, used, changed))"

lemma mergePass_used:
  "mergePass regions threshold js (current, used, changed) = (c', u', ch') \<Longrightarrow>
     used \<subseteq> u' \<and> u' \<subseteq> used \<union> set js \<and> (ch' \<longrightarrow> changed \<or> used \<noteq> u')"
proof (induction js arbitrary: current used changed)
  case Nil
  then show ?case by simp
next
  case (Cons j js)
  show ?case
  proof (cases "j \<in> used")
    case True
    with Cons.prems have "mergePass regions threshold js (current, used, changed) = (c', u', ch')"
      by simp
    from Cons.IH[OF this] show ?thesis by auto
  next
    case False
    show ?thesis
    proof (cases "regionsOverlapOrNear current (regions ! j) threshold")
      case True
      with False Cons.prems
      have "mergePass regions threshold js (mergeRegions current (regions ! j), insert j used, True)
              = (c', u', ch')" by simp
      from Cons.IH[OF this] False show ?thesis by auto
    next
      case F2: False
      with False Cons.prems
      have "mergePass regions threshold js (current, used, changed) = (c', u', ch')" by simp
      from Cons.IH[OF this] show ?thesis by auto
    qed
  qed
qed

text \<open>The number of indices not yet used: the measure of the \<open>while (changed)\<close> loop.\<close>

definition unusedCount :: "BoundingBox list \<Rightarrow> nat set \<Rightarrow> nat" where
  "unusedCount regions used = card ({..< length regions} - used)"

lemma mergePass_progress:
  assumes "mergePass regions threshold [0 ..< length regions] (current, used, False) = (c', u', True)"
  shows "unusedCount regions u' < unusedCount regions used"
proof -
  from mergePass_used[OF assms] have sub: "used \<subseteq> u'" "u' \<subseteq> used \<union> {..< length regions}" "used \<noteq> u'"
    by (auto simp: lessThan_atLeast0)
  then have "{..< length regions} - u' \<subset> {..< length regions} - used" by blast
  then show ?thesis unfolding unusedCount_def by (intro psubset_card_mono) auto
qed

text \<open>The \<open>while (changed)\<close> loop: passes are repeated until one merges nothing.\<close>

function absorb ::
  "BoundingBox list \<Rightarrow> int \<Rightarrow> BoundingBox \<Rightarrow> nat set \<Rightarrow> BoundingBox \<times> nat set" where
  "absorb regions threshold current used =
     (case mergePass regions threshold [0 ..< length regions] (current, used, False) of
        (current', used', changed) \<Rightarrow>
          if changed then absorb regions threshold current' used' else (current', used'))"
  by pat_completeness auto
termination
proof (relation "measure (\<lambda>(regions, threshold, current, used). unusedCount regions used)")
  show "wf (measure (\<lambda>(regions, threshold, current, used). unusedCount regions used))" by simp
qed (auto simp: mergePass_progress[OF sym])

text \<open>The outer \<open>for\<close> loop over the indices \<open>i\<close>.\<close>

fun mergeFrom ::
  "BoundingBox list \<Rightarrow> int \<Rightarrow> nat list \<Rightarrow> nat set \<Rightarrow> BoundingBox list \<Rightarrow> BoundingBox list" where
  "mergeFrom regions threshold [] used merged = merged"
| "mergeFrom regions threshold (i # is) used merged =
     (if i \<in> used then mergeFrom regions threshold is used merged
      else (case absorb regions threshold (regions ! i) (insert i used) of
              (current, used') \<Rightarrow> mergeFrom regions threshold is used' (merged @ [current])))"

definition mergeNearbyRegions :: "BoundingBox list \<Rightarrow> int \<Rightarrow> BoundingBox list" where
  "mergeNearbyRegions regions threshold =
     (if length regions \<le> 1 then regions
      else mergeFrom regions threshold [0 ..< length regions] {} [])"

subsection \<open>Diff areas\<close>

text \<open>
  The scan of \<open>findDiffAreas\<close> over the pixels \<open>(x, y)\<close> in row-major order: an
  unvisited diff pixel starts a flood fill, whose region, if any, is appended.
\<close>

fun scanPixels ::
  "PNG \<Rightarrow> (int \<times> int) list \<Rightarrow> int set \<Rightarrow> BoundingBox list \<Rightarrow> BoundingBox list" where
  "scanPixels img [] visited areas = areas"
| "scanPixels img ((px, py) # rest) visited areas =
     (if pixelKey img px py \<notin> visited
         \<and> isDiffPixel (pngData img) (shl2 (int (pngWidth img) * py + px))
      then (case floodFillRegion img px py visited of
              (None, visited') \<Rightarrow> scanPixels img rest visited' areas
            | (Some region, visited') \<Rightarrow> scanPixels img rest visited' (areas @ [region]))
      else scanPixels img rest visited areas)"

definition rowMajor :: "nat \<Rightarrow> nat \<Rightarrow> (int \<times> int) list" where
  "rowMajor w h = concat (map (\<lambda>py. map (\<lambda>px. (int px, int py)) [0 ..< w]) [0 ..< h])"

definition findDiffAreas :: "PNG \<Rightarrow> nat \<Rightarrow> BoundingBox list" where
  "findDiffAreas diffImg mismatched =
     (if mismatched = 0 then []
      else mergeNearbyRegions
             (scanPixels diffImg (rowMajor (pngWidth diffImg) (pngHeight diffImg)) {} []) 20)"

subsection \<open>Size normalisation\<close>

text \<open>\<open>new PNG({ width, height })\<close>: a zero-filled buffer of four bytes per pixel.\<close>

definition newPNG :: "nat \<Rightarrow> nat \<Rightarrow> PNG" where
  "newPNG w h = \<lparr>pngWidth = w, pngHeight = h, pngData = replicate (4 * w * h) 0\<rparr>"

definition fillWhite :: "nat \<Rightarrow> nat \<Rightarrow> 8 word list \<Rightarrow> 8 word list" where
  "fillWhite tw th d0 =
     fold (\<lambda>py d. fold (\<lambda>px d.
             (let idx = shl2 (int tw * int py + int px)
              in setByte (setByte (setByte (setByte d idx 255) (idx + 1) 255) (idx + 2) 255)
                   (idx + 3) 255)) [0 ..< tw] d) [0 ..< th] d0"

text \<open>A byte read outside the source buffer is \<open>undefined\<close> and is stored as 0.\<close>

definition byteOr0 :: "8 word list \<Rightarrow> int \<Rightarrow> 8 word" where
  "byteOr0 d i = (case byteAt d i of None \<Rightarrow> 0 | Some b \<Rightarrow> b)"

definition copyOriginal :: "PNG \<Rightarrow> nat \<Rightarrow> nat \<Rightarrow> 8 word list \<Rightarrow> 8 word list" where
  "copyOriginal img tw th d0 =
     fold (\<lambda>py d. fold (\<lambda>px d.
             (let srcIdx = shl2 (int (pngWidth img) * int py + int px);
                  dstIdx = shl2 (int tw * int py + int px)
              in setByte (setByte (setByte (setByte d dstIdx (byteOr0 (pngData img) srcIdx))
                   (dstIdx + 1) (byteOr0 (pngData img) (srcIdx + 1)))
                   (dstIdx + 2) (byteOr0 (pngData img) (srcIdx + 2)))
                   (dstIdx + 3) (byteOr0 (pngData img) (srcIdx + 3))))
           [0 ..< min (pngWidth img) tw] d) [0 ..< min (pngHeight img) th] d0"

definition resizeImage :: "PNG \<Rightarrow> nat \<Rightarrow> nat \<Rightarrow> PNG" where
  "resizeImage img targetWidth targetHeight =
     (if pngWidth img = targetWidth \<and> pngHeight img = targetHeight then img
      else (newPNG targetWidth targetHeight)
             \<lparr>pngData := copyOriginal img targetWidth targetHeight
                 (fillWhite targetWidth targetHeight (pngData (newPNG targetWidth targetHeight)))\<rparr>)"

definition normalizeImageSizes :: "PNG \<Rightarrow> PNG \<Rightarrow> nat \<times> nat \<times> PNG \<times> PNG" where
  "normalizeImageSizes img1 img2 =
     (let w = max (pngWidth img1) (pngWidth img2);
          h = max (pngHeight img1) (pngHeight img2)
      in if pngWidth img1 = pngWidth img2 \<and> pngHeight img1 = pngHeight img2
         then (w, h, img1, img2)
         else (w, h, resizeImage img1 w h, resizeImage img2 w h))"

subsection \<open>The image comparison\<close>

record VisualDiffOptions =
  optThreshold :: "real option"
  optIncludeAA :: "bool option"
  optAlpha :: "real option"
  optDiffColor :: "(nat \<times> nat \<times> nat) option"
  optDiffColorAlt :: "(nat \<times> nat \<times> nat) option"

record MatchOptions =
  matchThreshold :: real
  matchIncludeAA :: bool
  matchAlpha :: real
  matchDiffColor :: "nat \<times> nat \<times> nat"
  matchDiffColorAlt :: "nat \<times> nat \<times> nat"

definition DEFAULT_OPTIONS :: MatchOptions where
  "DEFAULT_OPTIONS =
     \<lparr>matchThreshold = 1 / 10, matchIncludeAA = False, matchAlpha = 1 / 10,
      matchDiffColor = (255, 0, 0), matchDiffColorAlt = (255, 255, 0)\<rparr>"

fun orDefault :: "'a option \<Rightarrow> 'a \<Rightarrow> 'a" where
  "orDefault None d = d"
| "orDefault (Some v) d = v"

text \<open>\<open>{ ...DEFAULT_OPTIONS, ...options }\<close>: a given option replaces the default.\<close>

definition mergeOptions :: "VisualDiffOptions \<Rightarrow> MatchOptions" where
  "mergeOptions opts =
     \<lparr>matchThreshold = orDefault (optThreshold opts) (matchThreshold DEFAULT_OPTIONS),
      matchIncludeAA = orDefault (optIncludeAA opts) (matchIncludeAA DEFAULT_OPTIONS),
      matchAlpha = orDefault (optAlpha opts) (matchAlpha DEFAULT_OPTIONS),
      matchDiffColor = orDefault (optDiffColor opts) (matchDiffColor DEFAULT_OPTIONS),
      matchDiffColorAlt = orDefault (optDiffColorAlt opts) (matchDiffColorAlt DEFAULT_OPTIONS)\<rparr>"

record VisualDiffResult =
  diffImage :: string
  matchPercentage :: number
  mismatchedPixels :: nat
  totalPixels :: nat
  diffAreas :: "BoundingBox list"

datatype diff_error = ParseFailed | EncodeFailed

type_synonym pixel = "8 word \<times> 8 word \<times> 8 word \<times> 8 word"

text \<open>
  The PNG codec is a parameter: \<open>parsePNG\<close> is the base64 decoding and the pngjs
  parse (\<open>None\<close> where the parse reports an error), \<open>packPNG\<close> the pngjs encoding
  to base64 (\<open>None\<close> on its error event). The other three fields are what the spec
  leaves open of the per-pixel comparison below: the perceptual measure of the
  difference of two pixels, the test whether the pixel at a position of the two images
  (given with their width and height) is anti-aliased, and the blending of an unchanged
  pixel by alpha.
\<close>

record pixel_lib =
  parsePNG :: "string \<Rightarrow> PNG option"
  packPNG :: "PNG \<Rightarrow> string option"
  pixelMetric :: "pixel \<Rightarrow> pixel \<Rightarrow> real"
  antialiased :: "8 word list \<Rightarrow> 8 word list \<Rightarrow> nat \<Rightarrow> nat \<Rightarrow> nat \<Rightarrow> bool"
  blendPixel :: "pixel \<Rightarrow> real \<Rightarrow> pixel"

definition pixelAt :: "8 word list \<Rightarrow> nat \<Rightarrow> pixel" where
  "pixelAt d i =
     (byteOr0 d (int (4 * i)), byteOr0 d (int (4 * i + 1)), byteOr0 d (int (4 * i + 2)),
      byteOr0 d (int (4 * i + 3)))"

fun writePixel :: "8 word list \<Rightarrow> nat \<Rightarrow> pixel \<Rightarrow> 8 word list" where
  "writePixel d i (r, g, b, a) = d[4 * i := r, 4 * i + 1 := g, 4 * i + 2 := b, 4 * i + 3 := a]"

fun opaque :: "nat \<times> nat \<times> nat \<Rightarrow> pixel" where
  "opaque (r, g, b) = (of_nat r, of_nat g, of_nat b, 255)"

text \<open>
  Modelled from the spec: \<open>pixelmatch\<close>, the per-pixel comparison that the image
  comparison calls, is a third-party library and is not under src/. Section 4.4, step 3:
  every pixel is classified as matching or differing by a perceptual threshold, with an
  optional exemption of anti-aliased pixels; where the pixels differ the diff colour is
  written into the output buffer (the alternate colour for an exempted difference),
  elsewhere the pixel is copied through, blended by alpha; the result is the number of
  mismatched pixels. A pixel is at no distance from itself; the distance of two different
  pixels is the measure left open by the spec. A difference counts unless anti-aliased
  pixels are exempted (\<open>includeAA\<close> is off) and the pixel is anti-aliased.
\<close>

definition pixelDistance :: "'z pixel_lib_scheme \<Rightarrow> pixel \<Rightarrow> pixel \<Rightarrow> real" where
  "pixelDistance lib p q = (if p = q then 0 else pixelMetric lib p q)"

fun matchPixels ::
  "'z pixel_lib_scheme \<Rightarrow> MatchOptions \<Rightarrow> 8 word list \<Rightarrow> 8 word list \<Rightarrow> nat \<Rightarrow> nat \<Rightarrow> nat list \<Rightarrow>
   nat \<times> 8 word list \<Rightarrow> nat \<times> 8 word list" where
  "matchPixels lib opts d1 d2 w h [] acc = acc"
| "matchPixels lib opts d1 d2 w h (i # rest) (mismatched, out) =
     (if matchThreshold opts < pixelDistance lib (pixelAt d1 i) (pixelAt d2 i)
      then
        (if \<not> matchIncludeAA opts \<and> antialiased lib d1 d2 w h i
         then matchPixels lib opts d1 d2 w h rest
                (mismatched, writePixel out i (opaque (matchDiffColorAlt opts)))
         else matchPixels lib opts d1 d2 w h rest
                (Suc mismatched, writePixel out i (opaque (matchDiffColor opts))))
      else matchPixels lib opts d1 d2 w h rest
             (mismatched, writePixel out i (blendPixel lib (pixelAt d1 i) (matchAlpha opts))))"

definition pixelmatch ::
  "'z pixel_lib_scheme \<Rightarrow> 8 word list \<Rightarrow> 8 word list \<Rightarrow> 8 word list \<Rightarrow> nat \<Rightarrow> nat \<Rightarrow> MatchOptions \<Rightarrow>
   nat \<times> 8 word list" where
  "pixelmatch lib d1 d2 out w h opts = matchPixels lib opts d1 d2 w h [0 ..< w * h] (0, out)"

text \<open>The characters of \<open>\w\<close>: digits, letters and the underscore.\<close>

definition isWordChar :: "char \<Rightarrow> bool" where
  "isWordChar c =
     (let n = (of_char c :: nat)
      in (48 \<le> n \<and> n \<le> 57) \<or> (65 \<le> n \<and> n \<le> 90) \<or> n = 95 \<or> (97 \<le> n \<and> n \<le> 122))"

text \<open>Removal of a leading \<open>data:image/\w+;base64,\<close>.\<close>

definition stripDataUrl :: "string \<Rightarrow> string" where
  "stripDataUrl s =
     (if prefix ''data:image/'' s
         \<and> takeWhile isWordChar (drop 11 s) \<noteq> []
         \<and> prefix '';base64,'' (dropWhile isWordChar (drop 11 s))
      then drop 8 (dropWhile isWordChar (drop 11 s)) else s)"

definition decodeBase64Image :: "'z pixel_lib_scheme \<Rightarrow> string \<Rightarrow> PNG option" where
  "decodeBase64Image lib base64 = parsePNG lib (stripDataUrl base64)"

definition roundedPercentage :: "nat \<Rightarrow> nat \<Rightarrow> number" where
  "roundedPercentage totalPx mismatched =
     (let matchPct = n_mul (n_div (Num (real totalPx - real mismatched)) (Num (real totalPx))) (Num 100)
      in n_div (n_round (n_mul matchPct (Num 100))) (Num 100))"

definition VisualDiffEngine_compare ::
  "'z pixel_lib_scheme \<Rightarrow> string \<Rightarrow> string \<Rightarrow> VisualDiffOptions \<Rightarrow> diff_error + VisualDiffResult" where
  "VisualDiffEngine_compare lib image1Base64 image2Base64 opts =
     (case decodeBase64Image lib image1Base64 of
        None \<Rightarrow> Inl ParseFailed
      | Some img1 \<Rightarrow>
     (case decodeBase64Image lib image2Base64 of
        None \<Rightarrow> Inl ParseFailed
      | Some img2 \<Rightarrow>
     (case normalizeImageSizes img1 img2 of
        (w, h, resizedImg1, resizedImg2) \<Rightarrow>
     (case pixelmatch lib (pngData resizedImg1) (pngData resizedImg2) (pngData (newPNG w h)) w h
             (mergeOptions opts) of
        (mismatched, diffData) \<Rightarrow>
     (case packPNG lib ((newPNG w h)\<lparr>pngData := diffData\<rparr>) of
        None \<Rightarrow> Inl EncodeFailed
      | Some diffImageBase64 \<Rightarrow>
          Inr \<lparr>diffImage = diffImageBase64,
               matchPercentage = roundedPercentage (w * h) mismatched,
               mismatchedPixels = mismatched,
               totalPixels = w * h,
               diffAreas = findDiffAreas ((newPNG w h)\<lparr>pngData := diffData\<rparr>) mismatched\<rparr>)))))"

text \<open>
  The number of mismatches of a list in category \<open>c\<close> with severity \<open>s\<close>, used to
  state the scoring rule.
\<close>

definition countIn :: "StyleMismatch list \<Rightarrow> MismatchCategory \<Rightarrow> MismatchSeverity \<Rightarrow> real" where
  "countIn ms c s = real (length (filter (\<lambda>m. category m = c \<and> severity m = s) ms))"

section \<open>Predicates of the specification\<close>

text \<open>
  The step function of the specification: critical from the critical threshold on,
  major from the major threshold on and below the critical one, minor otherwise.
\<close>

definition stepSeverity :: "real \<Rightarrow> real \<Rightarrow> number \<Rightarrow> MismatchSeverity" where
  "stepSeverity crit maj d =
     (if n_ge d (Num crit) then Critical else if n_ge d (Num maj) then Major else Minor)"

text \<open>
  What a mismatch raised by each pass looks like. The colour pass raises colour and
  border-colour mismatches, the typography pass typography mismatches, the spacing pass
  spacing and border-radius mismatches; these carry no component name. Component
  matching raises major mismatches under the component's name.
\<close>

definition colorShape :: "StyleMismatch \<Rightarrow> bool" where
  "colorShape m =
     (figmaComponent m = None
      \<and> ((category m = Color \<and> property m \<in> {''color'', ''backgroundColor''})
         \<or> (category m = Border \<and> property m = ''borderColor''))
      \<and> severity m = stepSeverity 20 10 (deviation m))"

definition typographyShape :: "StyleMismatch \<Rightarrow> bool" where
  "typographyShape m =
     (figmaComponent m = None \<and> category m = Typography
      \<and> ((property m = ''fontSize'' \<and> severity m = stepSeverity 8 4 (deviation m))
         \<or> (property m = ''fontWeight'' \<and> severity m = Minor)
         \<or> (property m = ''lineHeight''
            \<and> (\<exists>d. deviation m = n_mul d (Num 100)
                  \<and> severity m = stepSeverity (3 / 10) (2 / 10) d))))"

definition spacingShape :: "StyleMismatch \<Rightarrow> bool" where
  "spacingShape m =
     (figmaComponent m = None
      \<and> ((category m = Spacing \<and> property m \<in> set (paddingProps @ marginProps @ [''gap''])
           \<and> severity m = stepSeverity 16 8 (deviation m))
         \<or> (category m = Border \<and> property m = ''borderRadius''
           \<and> severity m = stepSeverity 8 4 (deviation m))))"

definition componentShape :: "StyleMismatch \<Rightarrow> bool" where
  "componentShape m =
     (figmaComponent m \<noteq> None \<and> severity m = Major \<and> property m \<in> set styleProps
      \<and> category m = getCategoryForProperty (property m))"

definition allM :: "(StyleMismatch \<Rightarrow> bool) \<Rightarrow> engine_state \<Rightarrow> bool" where
  "allM P st = (\<forall>m \<in> set (mismatches st). P m)"

text \<open>Which pass raised a mismatch of the result, given which passes ran.\<close>

definition raisedBy :: "FigmaAnalysisResult \<Rightarrow> StyleMismatch \<Rightarrow> bool" where
  "raisedBy f m =
     ((colors (designTokens f) \<noteq> [] \<and> colorShape m)
      \<or> (typography (designTokens f) \<noteq> [] \<and> typographyShape m)
      \<or> (spacing (designTokens f) \<noteq> [] \<and> spacingShape m)
      \<or> (components f \<noteq> [] \<and> componentShape m))"

text \<open>
  Token \<open>i\<close> of \<open>xs\<close> parses to \<open>c\<close> and is the nearest token to the colour
  \<open>a\<close>: no token that parses is nearer, and every earlier one that parses is
  strictly further.
\<close>

definition nearestAt ::
  "('c, 'z) js_lib_scheme \<Rightarrow> 'c \<Rightarrow> FigmaColor list \<Rightarrow> nat \<Rightarrow> 'c \<Rightarrow> bool" where
  "nearestAt lib a xs i c =
     (i < length xs \<and> chroma lib (hex (xs ! i)) = Some c
      \<and> (\<forall>j c'. j < length xs \<and> chroma lib (hex (xs ! j)) = Some c'
            \<longrightarrow> deltaE lib a c \<le> deltaE lib a c')
      \<and> (\<forall>j c'. j < i \<and> chroma lib (hex (xs ! j)) = Some c'
            \<longrightarrow> deltaE lib a c < deltaE lib a c'))"

text \<open>The state of the colour loop after the tokens \<open>xs\<close>, started at \<open>(c0, Infinity)\<close>.\<close>

definition colorInv ::
  "('c, 'z) js_lib_scheme \<Rightarrow> 'c \<Rightarrow> FigmaColor \<Rightarrow> FigmaColor list \<Rightarrow> FigmaColor \<times> number \<Rightarrow> bool" where
  "colorInv lib a c0 xs r =
     (((\<forall>t \<in> set xs. chroma lib (hex t) = None) \<and> r = (c0, PInf))
      \<or> (\<exists>i c. nearestAt lib a xs i c \<and> r = (xs ! i, Num (deltaE lib a c))))"

text \<open>The value of property \<open>p\<close> reads as \<open>NaN\<close> or as zero.\<close>

definition skipped :: "('c, 'z) js_lib_scheme \<Rightarrow> DOMElement \<Rightarrow> string \<Rightarrow> bool" where
  "skipped lib el p =
     (parseFloatOf lib (computedStyles el p) = NaN \<or> parseFloatOf lib (computedStyles el p) = Num 0)"

text \<open>The properties that the spacing pass checks.\<close>

definition spacingPassProps :: "string list" where
  "spacingPassProps = paddingProps @ marginProps @ [''gap'', ''borderRadius'']"

text \<open>
  The actual value of a mismatch is a pixel value above zero; and: a mismatch raised by
  a token pass on a property of the spacing pass has such an actual value.
\<close>

definition positiveActual :: "StyleMismatch \<Rightarrow> bool" where
  "positiveActual m = (\<exists>v. actualValue m = NumPx v \<and> n_gt v (Num 0))"

definition tokenSpacingPositive :: "StyleMismatch \<Rightarrow> bool" where
  "tokenSpacingPositive m =
     (figmaComponent m = None \<and> property m \<in> set spacingPassProps \<longrightarrow> positiveActual m)"

section \<open>Sample inputs\<close>

text \<open>
  A small stand-in for the libraries, used to run the model on concrete inputs. Colours
  are three grey levels, given by their lightness, and their distance is the difference
  of lightness; any other string does not parse. \<open>sampleParseFloat\<close> reads a leading
  run of decimal digits, as \<open>parseFloat\<close> and \<open>parseInt\<close> do on strings such as
  \<open>24px\<close>, and is \<open>NaN\<close> without one. \<open>sampleToLower\<close> maps the ASCII capitals.
\<close>

definition sampleChroma :: "string \<Rightarrow> real option" where
  "sampleChroma s =
     (if s = ''#000000'' then Some 0
      else if s = ''#777777'' \<or> s = ''rgb(119, 119, 119)'' then Some 50
      else if s = ''#FFFFFF'' then Some 100 else None)"

definition sampleHex :: "real \<Rightarrow> string" where
  "sampleHex c = (if c = 0 then ''#000000'' else if c = 50 then ''#777777'' else ''#FFFFFF'')"

definition isDigit :: "char \<Rightarrow> bool" where
  "isDigit c = (let n = (of_char c :: nat) in 48 \<le> n \<and> n \<le> 57)"

fun digitsValue :: "string \<Rightarrow> nat \<Rightarrow> nat" where
  "digitsValue [] acc = acc"
| "digitsValue (c # cs) acc = digitsValue cs (10 * acc + (of_char c - 48))"

definition sampleParseFloat :: "string \<Rightarrow> number" where
  "sampleParseFloat s =
     (if takeWhile isDigit s = [] then NaN else Num (real (digitsValue (takeWhile isDigit s) 0)))"

definition sampleToLower :: "string \<Rightarrow> string" where
  "sampleToLower s =
     map (\<lambda>c. case map_of (zip ''ABCDEFGHIJKLMNOPQRSTUVWXYZ'' ''abcdefghijklmnopqrstuvwxyz'') c of
                None \<Rightarrow> c | Some l \<Rightarrow> l) s"

definition sampleLib :: "real js_lib" where
  "sampleLib =
     \<lparr>chroma = sampleChroma, deltaE = (\<lambda>a b. \<bar>a - b\<bar>), hexUpper = sampleHex,
      parseFloat = sampleParseFloat, parseInt = sampleParseFloat, toLowerCase = sampleToLower\<rparr>"

text \<open>
  A design whose only colour token has a hex that is not a colour, and a grey paragraph
  with a transparent background and a border of zero width.
\<close>

definition brokenTokens :: "FigmaColor list" where
  "brokenTokens = [\<lparr>colorName = ''broken'', hex = ''not-a-color''\<rparr>]"

definition brokenDesign :: FigmaAnalysisResult where
  "brokenDesign =
     \<lparr>designTokens = \<lparr>colors = brokenTokens, typography = [], spacing = []\<rparr>, components = []\<rparr>"

definition greyElement :: DOMElement where
  "greyElement =
     DOMElement ''p'' None None
       [''color'' \<mapsto> ''rgb(119, 119, 119)'', ''backgroundColor'' \<mapsto> ''rgba(0, 0, 0, 0)'',
        ''borderColor'' \<mapsto> ''rgb(119, 119, 119)'', ''borderWidth'' \<mapsto> ''0px''] []"

text \<open>An element with a border radius of 11px against the single spacing token 8.\<close>

definition radiusElement :: DOMElement where
  "radiusElement = DOMElement ''div'' None None [''borderRadius'' \<mapsto> ''11px''] []"

definition radiusDesign :: FigmaAnalysisResult where
  "radiusDesign =
     \<lparr>designTokens = \<lparr>colors = [], typography = [],
        spacing = [\<lparr>spacingName = ''spacing-sm'', spacingValue = 8\<rparr>]\<rparr>,
      components = []\<rparr>"

text \<open>A design without tokens and without components.\<close>

definition emptyDesign :: FigmaAnalysisResult where
  "emptyDesign =
     \<lparr>designTokens = \<lparr>colors = [], typography = [], spacing = []\<rparr>, components = []\<rparr>"

text \<open>
  A paragraph of 16px with a line height of 24px against two typography tokens: the
  body token has exactly its size and line height, the heading token is larger.
\<close>

definition paragraphElement :: DOMElement where
  "paragraphElement =
     DOMElement ''p'' None None [''fontSize'' \<mapsto> ''16px'', ''lineHeight'' \<mapsto> ''24px''] []"

definition bodyToken :: FigmaTypography where
  "bodyToken = \<lparr>fontFamily = ''Inter'', fontSize = 16, fontWeight = 400, lineHeight = LineHeightNum 24\<rparr>"

definition headingToken :: FigmaTypography where
  "headingToken = \<lparr>fontFamily = ''Inter'', fontSize = 32, fontWeight = 700, lineHeight = LineHeightNum 64\<rparr>"

definition typographyDesign :: FigmaAnalysisResult where
  "typographyDesign =
     \<lparr>designTokens = \<lparr>colors = [], typography = [bodyToken, headingToken], spacing = []\<rparr>,
      components = []\<rparr>"

definition lineHeightMismatch :: StyleMismatch where
  "lineHeightMismatch =
     \<lparr>mismatchId = 1, category = Typography, severity = Critical, property = ''lineHeight'',
       expectedValue = NumPx (Num 64), actualValue = Text ''24px'',
       element = \<lparr>selector = SelNth SelBody 1, refTagName = ''p'', refId = None, refClassName = None\<rparr>,
       figmaComponent = None, deviation = Num 50\<rparr>"

text \<open>
  A design without tokens but with a component \<open>Button\<close> of font size 32px, and a
  button element of font size 16px whose id contains the component's name.
\<close>

definition buttonElement :: DOMElement where
  "buttonElement = DOMElement ''button'' (Some ''submit-button'') None [''fontSize'' \<mapsto> ''16px''] []"

definition buttonDesign :: FigmaAnalysisResult where
  "buttonDesign =
     \<lparr>designTokens = \<lparr>colors = [], typography = [], spacing = []\<rparr>,
      components = [\<lparr>componentName = ''Button'', componentStyles = [''fontSize'' \<mapsto> ''32px'']\<rparr>]\<rparr>"

text \<open>A component \<open>Card\<close> of padding 13px and a card element of padding 8px.\<close>

definition cardElement :: DOMElement where
  "cardElement = DOMElement ''div'' None (Some ''card primary'') [''padding'' \<mapsto> ''8px''] []"

definition cardDesign :: FigmaAnalysisResult where
  "cardDesign =
     \<lparr>designTokens = \<lparr>colors = [], typography = [], spacing = []\<rparr>,
      components = [\<lparr>componentName = ''Card'', componentStyles = [''padding'' \<mapsto> ''13px'']\<rparr>]\<rparr>"

text \<open>An element with a zero top padding, an unparsable top margin and a left padding.\<close>

definition flatElement :: DOMElement where
  "flatElement =
     DOMElement ''div'' None None
       [''paddingTop'' \<mapsto> ''0px'', ''marginTop'' \<mapsto> ''auto'', ''paddingLeft'' \<mapsto> ''24px''] []"

text \<open>The spacing mismatch that the left padding of that element raises against 8.\<close>

definition paddingMismatch :: StyleMismatch where
  "paddingMismatch =
     \<lparr>mismatchId = 1, category = Spacing, severity = Critical, property = ''paddingLeft'',
       expectedValue = NumPx (Num 8), actualValue = NumPx (Num 24),
       element = \<lparr>selector = SelNth SelBody 1, refTagName = ''div'', refId = None,
                  refClassName = None\<rparr>,
       figmaComponent = None, deviation = Num 16\<rparr>"

text \<open>
  A component \<open>Avatar\<close> of border radius 8px and an avatar element of border radius
  0px, with one spacing token.
\<close>

definition squareElement :: DOMElement where
  "squareElement = DOMElement ''img'' None (Some ''avatar'') [''borderRadius'' \<mapsto> ''0px''] []"

definition avatarDesign :: FigmaAnalysisResult where
  "avatarDesign =
     \<lparr>designTokens = \<lparr>colors = [], typography = [],
        spacing = [\<lparr>spacingName = ''spacing-sm'', spacingValue = 8\<rparr>]\<rparr>,
      components = [\<lparr>componentName = ''Avatar'', componentStyles = [''borderRadius'' \<mapsto> ''8px'']\<rparr>]\<rparr>"

text \<open>
  Three diff regions in scan order: a small box at the top, a small box at the left
  and a wide bar below it. The bar is within 20px of the left box only; the bounding
  box of the two, \<open>boxBC\<close>, overlaps the first box.
\<close>

definition boxA :: BoundingBox where
  "boxA = \<lparr>bbX = 100, bbY = 0, bbWidth = 10, bbHeight = 10\<rparr>"

definition boxB :: BoundingBox where
  "boxB = \<lparr>bbX = 0, bbY = 5, bbWidth = 10, bbHeight = 10\<rparr>"

definition boxC :: BoundingBox where
  "boxC = \<lparr>bbX = 0, bbY = 35, bbWidth = 300, bbHeight = 10\<rparr>"

definition boxBC :: BoundingBox where
  "boxBC = \<lparr>bbX = 0, bbY = 5, bbWidth = 300, bbHeight = 40\<rparr>"

text \<open>
  A stand-in for the image libraries. \<open>redPng\<close> is the base64 text of a PNG file of
  one opaque red pixel and \<open>greyPng\<close> that of one opaque pixel of grey 237; the
  decoder knows the first and the encoder the second. Unchanged pixels are blended to
  grey by their luminance, the measure is the largest channel difference as a fraction
  of 255, and no pixel is anti-aliased.
\<close>

definition redPng :: string where
  "redPng =
     ''iVBORw0KGgoAAAANSUhEUgAAAAEAAAABCAYAAAAfFcSJAAAADUlEQVR4nGP4z8DwHwAFAAH/iZk9HQAAAABJRU5ErkJggg==''"

definition greyPng :: string where
  "greyPng =
     ''iVBORw0KGgoAAAANSUhEUgAAAAEAAAABCAYAAAAfFcSJAAAADUlEQVR4nGN4+/btfwAJWQPHYpF99wAAAABJRU5ErkJggg==''"

definition redImage :: PNG where
  "redImage = \<lparr>pngWidth = 1, pngHeight = 1, pngData = [255, 0, 0, 255]\<rparr>"

definition greyImage :: PNG where
  "greyImage = \<lparr>pngWidth = 1, pngHeight = 1, pngData = [237, 237, 237, 255]\<rparr>"

fun sampleBlend :: "pixel \<Rightarrow> real \<Rightarrow> pixel" where
  "sampleBlend (r, g, b, a) alpha =
     (let y = real (unat r) * 29889531 / 100000000 + real (unat g) * 58662247 / 100000000
                + real (unat b) * 11448223 / 100000000;
          v = word_of_int \<lfloor>255 + (y - 255) * (alpha * real (unat a) / 255)\<rfloor>
      in (v, v, v, 255))"

fun sampleMetric :: "pixel \<Rightarrow> pixel \<Rightarrow> real" where
  "sampleMetric (r1, g1, b1, a1) (r2, g2, b2, a2) =
     Max {\<bar>real (unat r1) - real (unat r2)\<bar>, \<bar>real (unat g1) - real (unat g2)\<bar>,
          \<bar>real (unat b1) - real (unat b2)\<bar>, \<bar>real (unat a1) - real (unat a2)\<bar>} / 255"

definition samplePixelLib :: pixel_lib where
  "samplePixelLib =
     \<lparr>parsePNG = (\<lambda>s. if s = redPng then Some redImage else None),
      packPNG = (\<lambda>p. if p = greyImage then Some greyPng else None),
      pixelMetric = sampleMetric,
      antialiased = (\<lambda>d1 d2 w h i. False),
      blendPixel = sampleBlend\<rparr>"

definition noOptions :: VisualDiffOptions where
  "noOptions = \<lparr>optThreshold = None, optIncludeAA = None, optAlpha = None, optDiffColor = None,
                 optDiffColorAlt = None\<rparr>"

lemmas engine_defs =
  compare_def runComparisons_def compareColors_def compareTypography_def compareSpacing_def
  compareComponents_def componentStep_def findMatchingElement_def compareElementStyles_def
  elementStyleStep_def styleProps_def getCategoryForProperty_def
  colorChecks_def reportColor_def findColorMismatch_def colorStep_def
  typographyChecks_def fontSizeCheck_def fontWeightCheck_def lineHeightCheck_def
  findClosestTypography_def closestStep_def
  spacingChecks_def spacingPropCheck_def paddingProps_def marginProps_def gapCheck_def
  borderRadiusCheck_def findSpacingMismatch_def spacingStep_def
  addMismatch_def elementRef_def buildSelector_def firstClass_def
  getColorSeverity_def getFontSizeSeverity_def getSpacingSeverity_def
  getBorderRadiusSeverity_def getLineHeightSeverity_def
  n_sub_def n_gt_def n_ge_def thresholds Let_def
  sampleLib_def sampleChroma_def sampleHex_def sampleParseFloat_def isDigit_def sampleToLower_def

section \<open>Properties of the scores\<close>

lemma deduction_fold:
  "fold (\<lambda>m deduction. deduction + penalty (severity m)) ms a =
     a + 15 * real (length (filter (\<lambda>m. severity m = Critical) ms))
       + 10 * real (length (filter (\<lambda>m. severity m = Major) ms))
       + 5 * real (length (filter (\<lambda>m. severity m = Minor) ms))
       + 2 * real (length (filter (\<lambda>m. severity m = Info) ms))"
proof (induction ms arbitrary: a)
  case Nil
  show ?case by simp
next
  case (Cons m ms)
  show ?case by (cases "severity m") (simp_all add: Cons.IH)
qed

lemma categoryScore_formula:
  "categoryScore ms c =
     max 0 (100 - (15 * countIn ms c Critical + 10 * countIn ms c Major
                   + 5 * countIn ms c Minor + 2 * countIn ms c Info))"
proof -
  let ?cm = "filter (\<lambda>m. category m = c) ms"
  have cnt: "countIn ms c s = real (length (filter (\<lambda>m. severity m = s) ?cm))" for s
    by (simp add: countIn_def)
  show ?thesis
  proof (cases "?cm = []")
    case True
    then show ?thesis by (simp add: categoryScore_def cnt)
  next
    case False
    then show ?thesis by (simp add: categoryScore_def Let_def deduction_fold cnt algebra_simps)
  qed
qed

lemma map_of_calculateCategoryScores:
  "map_of (calculateCategoryScores ms) c = Some (categoryScore ms c)"
  by (cases c) (simp_all add: calculateCategoryScores_def categories_def)

lemma weightTotals_scores:
  "weightTotals (calculateCategoryScores ms) =
     (2 / 10 * categoryScore ms Color + 2 / 10 * categoryScore ms Typography
      + 15 / 100 * categoryScore ms Spacing + 15 / 100 * categoryScore ms Layout
      + 1 / 10 * categoryScore ms Border + 1 / 10 * categoryScore ms Alignment
      + 1 / 10 * categoryScore ms Size, 1)"
  by (simp add: weightTotals_def calculateCategoryScores_def categories_def weightStep_def
      weightOf_def weights_def)

text \<open>
  Claim C3. For every comparison and each of the seven categories \<open>c\<close>, the score map
  of the result holds for \<open>c\<close> the value
  \<open>max 0 (100 - (15 * critical + 10 * major + 5 * minor + 2 * info))\<close>, the counts
  being those of the result's mismatches in category \<open>c\<close>. A category without
  mismatches has all four counts zero and scores 100.
\<close>

theorem category_score_is_floored_deduction:
  "map_of (categoryScores (compare lib webAnalysis figmaAnalysis)) c =
     Some (max 0 (100 -
       (15 * countIn (resultMismatches (compare lib webAnalysis figmaAnalysis)) c Critical
        + 10 * countIn (resultMismatches (compare lib webAnalysis figmaAnalysis)) c Major
        + 5 * countIn (resultMismatches (compare lib webAnalysis figmaAnalysis)) c Minor
        + 2 * countIn (resultMismatches (compare lib webAnalysis figmaAnalysis)) c Info)))"
  by (simp add: compare_def Let_def map_of_calculateCategoryScores categoryScore_formula)

text \<open>
  Claim C2. For every comparison, the score map of the result holds exactly the seven
  categories, in the order colour, typography, spacing, layout, border, alignment,
  size; the weights added up over it total 1; and the overall score is the sum of the
  seven scores weighted 0.20, 0.20, 0.15, 0.15, 0.10, 0.10, 0.10, rounded to the nearest
  integer (\<open>Math.round\<close>: the floor of the value plus one half). Arithmetic is exact
  here; rounding of doubles is not modelled.
\<close>

theorem overall_score_weighted_average:
  "\<exists>sc st ss sl sb sa sz.
     categoryScores (compare lib webAnalysis figmaAnalysis) =
       [(Color, sc), (Typography, st), (Spacing, ss), (Layout, sl), (Border, sb),
        (Alignment, sa), (Size, sz)]
     \<and> snd (weightTotals (categoryScores (compare lib webAnalysis figmaAnalysis))) = 1
     \<and> overallScore (compare lib webAnalysis figmaAnalysis) =
         Num (of_int \<lfloor>(2 / 10 * sc + 2 / 10 * st + 15 / 100 * ss + 15 / 100 * sl
                         + 1 / 10 * sb + 1 / 10 * sa + 1 / 10 * sz) + 1 / 2\<rfloor>)"
proof -
  let ?ms = "mismatches (runComparisons lib webAnalysis figmaAnalysis)"
  have sc: "categoryScores (compare lib webAnalysis figmaAnalysis) = calculateCategoryScores ?ms"
    by (simp add: compare_def Let_def)
  have ov: "overallScore (compare lib webAnalysis figmaAnalysis)
             = calculateOverallScore (calculateCategoryScores ?ms)"
    by (simp add: compare_def Let_def)
  have l: "calculateCategoryScores ?ms =
       [(Color, categoryScore ?ms Color), (Typography, categoryScore ?ms Typography),
        (Spacing, categoryScore ?ms Spacing), (Layout, categoryScore ?ms Layout),
        (Border, categoryScore ?ms Border), (Alignment, categoryScore ?ms Alignment),
        (Size, categoryScore ?ms Size)]"
    by (simp add: calculateCategoryScores_def categories_def)
  have w: "snd (weightTotals (calculateCategoryScores ?ms)) = 1"
    by (simp add: weightTotals_scores)
  have o: "calculateOverallScore (calculateCategoryScores ?ms) =
         Num (of_int \<lfloor>(2 / 10 * categoryScore ?ms Color + 2 / 10 * categoryScore ?ms Typography
              + 15 / 100 * categoryScore ?ms Spacing + 15 / 100 * categoryScore ?ms Layout
              + 1 / 10 * categoryScore ?ms Border + 1 / 10 * categoryScore ?ms Alignment
              + 1 / 10 * categoryScore ?ms Size) + 1 / 2\<rfloor>)"
    by (simp add: calculateOverallScore_def weightTotals_scores)
  show ?thesis
    unfolding sc ov using l w o by blast
qed

section \<open>Properties of the colour matcher\<close>

lemma nearestAt_snoc_skip:
  assumes "nearestAt lib a xs i c" "chroma lib (hex x) = None"
  shows "nearestAt lib a (xs @ [x]) i c"
  using assms unfolding nearestAt_def by (auto simp: nth_append less_Suc_eq)

lemma nearestAt_snoc_keep:
  assumes "nearestAt lib a xs i c" "chroma lib (hex x) = Some fc" "deltaE lib a c \<le> deltaE lib a fc"
  shows "nearestAt lib a (xs @ [x]) i c"
  using assms unfolding nearestAt_def by (auto simp: nth_append less_Suc_eq)

lemma nearestAt_snoc_replace:
  assumes "nearestAt lib a xs i c" "chroma lib (hex x) = Some fc" "deltaE lib a fc < deltaE lib a c"
  shows "nearestAt lib a (xs @ [x]) (length xs) fc"
  using assms unfolding nearestAt_def by (fastforce simp: nth_append less_Suc_eq)

lemma nearestAt_snoc_first:
  assumes "\<forall>t \<in> set xs. chroma lib (hex t) = None" "chroma lib (hex x) = Some fc"
  shows "nearestAt lib a (xs @ [x]) (length xs) fc"
  using assms unfolding nearestAt_def by (auto simp: nth_append less_Suc_eq)

lemma colorInv_fold: "colorInv lib a c0 xs (fold (colorStep lib a) xs (c0, PInf))"
proof (induction xs rule: rev_induct)
  case Nil
  show ?case by (simp add: colorInv_def)
next
  case (snoc x xs)
  let ?r = "fold (colorStep lib a) xs (c0, PInf)"
  have f: "fold (colorStep lib a) (xs @ [x]) (c0, PInf) = colorStep lib a x ?r" by simp
  from snoc.IH consider
      (none) "\<forall>t \<in> set xs. chroma lib (hex t) = None" "?r = (c0, PInf)"
    | (some) i c where "nearestAt lib a xs i c" "?r = (xs ! i, Num (deltaE lib a c))"
    unfolding colorInv_def by blast
  then show ?case
  proof cases
    case none
    show ?thesis
    proof (cases "chroma lib (hex x)")
      case None
      with none show ?thesis unfolding f colorInv_def by (simp add: colorStep_def)
    next
      case (Some fc)
      with none have "colorStep lib a x ?r = (x, Num (deltaE lib a fc))"
        by (simp add: colorStep_def)
      moreover have "(xs @ [x]) ! length xs = x" by simp
      ultimately show ?thesis
        unfolding f colorInv_def using nearestAt_snoc_first[OF none(1) Some] by metis
    qed
  next
    case some
    have i: "i < length xs" using some(1) by (simp add: nearestAt_def)
    then have nth: "(xs @ [x]) ! i = xs ! i" by (simp add: nth_append)
    show ?thesis
    proof (cases "chroma lib (hex x)")
      case None
      then have "colorStep lib a x ?r = (xs ! i, Num (deltaE lib a c))"
        using some(2) by (simp add: colorStep_def)
      then show ?thesis
        unfolding f colorInv_def using nearestAt_snoc_skip[OF some(1) None] nth by metis
    next
      case (Some fc)
      show ?thesis
      proof (cases "deltaE lib a fc < deltaE lib a c")
        case True
        then have "colorStep lib a x ?r = (x, Num (deltaE lib a fc))"
          using some(2) Some by (simp add: colorStep_def)
        moreover have "(xs @ [x]) ! length xs = x" by simp
        ultimately show ?thesis
          unfolding f colorInv_def using nearestAt_snoc_replace[OF some(1) Some True] by metis
      next
        case False
        then have "colorStep lib a x ?r = (xs ! i, Num (deltaE lib a c))"
          using some(2) Some by (simp add: colorStep_def)
        moreover from False have "deltaE lib a c \<le> deltaE lib a fc" by simp
        ultimately show ?thesis
          unfolding f colorInv_def using nearestAt_snoc_keep[OF some(1) Some] nth by metis
      qed
    qed
  qed
qed

text \<open>
  Where at least one token's hex parses, \<open>findColorMismatch\<close> does what is asked of
  it: for an actual colour that parses there is a token \<open>i\<close>, parsing to \<open>c\<close>, that
  is nearest to the actual colour among the tokens that parse and is the first such
  token; a mismatch is returned exactly when its distance exceeds 5, and then the
  expected value is the hex of token \<open>i\<close> and the deviation is its distance.
\<close>

lemma findColorMismatch_nearest_parseable_token:
  assumes "chroma lib actualColor = Some a"
      and "\<exists>t \<in> set tokens. chroma lib (hex t) \<noteq> None"
  shows "\<exists>i c. nearestAt lib a tokens i c
           \<and> findColorMismatch lib actualColor tokens =
               (if 5 < deltaE lib a c
                then Some \<lparr>cmExpected = hex (tokens ! i), cmActual = hexUpper lib a,
                           cmDeviation = Num (deltaE lib a c)\<rparr>
                else None)"
proof -
  from assms(2) obtain c0 rest where tk: "tokens = c0 # rest" by (cases tokens) auto
  let ?r = "fold (colorStep lib a) tokens (c0, PInf)"
  have "\<not> (\<forall>t \<in> set tokens. chroma lib (hex t) = None)" using assms(2) by simp
  with colorInv_fold[of lib a c0 tokens]
  obtain i c where n: "nearestAt lib a tokens i c" and r: "?r = (tokens ! i, Num (deltaE lib a c))"
    unfolding colorInv_def by auto
  have "findColorMismatch lib actualColor tokens =
               (if 5 < deltaE lib a c
                then Some \<lparr>cmExpected = hex (tokens ! i), cmActual = hexUpper lib a,
                           cmDeviation = Num (deltaE lib a c)\<rparr>
                else None)"
    using assms(1) r unfolding findColorMismatch_def tk
    by (simp add: Let_def color_deltaE_def)
  with n show ?thesis by blast
qed

text \<open>
  Claim C1, at an input where the code departs from it. The actual colour parses and
  the token collection is not empty, but the hex of its only token does not parse, so
  no token has a distance and there is no minimum to exceed the tolerance. The loop
  skips the token and leaves its initial values in place: \<open>findColorMismatch\<close>
  returns a mismatch with the unparsable hex as expected value and an infinite
  deviation, and the comparison reports it as a critical colour mismatch. (The
  transparent background and the border of zero width are not compared.)
\<close>

theorem unparseable_tokens_raise_infinite_mismatch:
  "chroma sampleLib ''rgb(119, 119, 119)'' = Some 50
   \<and> brokenTokens \<noteq> []
   \<and> chroma sampleLib (hex (brokenTokens ! 0)) = None
   \<and> findColorMismatch sampleLib ''rgb(119, 119, 119)'' brokenTokens =
        Some \<lparr>cmExpected = ''not-a-color'', cmActual = ''#777777'', cmDeviation = PInf\<rparr>
   \<and> resultMismatches (compare sampleLib \<lparr>domTree = [greyElement]\<rparr> brokenDesign) =
        [\<lparr>mismatchId = 1, category = Color, severity = Critical, property = ''color'',
          expectedValue = Text ''not-a-color'', actualValue = Text ''#777777'',
          element = \<lparr>selector = SelNth SelBody 1, refTagName = ''p'', refId = None,
                     refClassName = None\<rparr>,
          figmaComponent = None, deviation = PInf\<rparr>]"
  by (simp add: engine_defs brokenTokens_def brokenDesign_def greyElement_def)

section \<open>Properties of the mismatch list\<close>

lemma allM_addMismatch:
  assumes "allM P st"
    and "P \<lparr>mismatchId = Suc (mismatchIdCounter st), category = cat, severity = sev,
        property = prop, expectedValue = e, actualValue = a, element = r, figmaComponent = fc,
        deviation = d\<rparr>"
  shows "allM P (addMismatch cat prop e a r fc d sev st)"
  using assms by (simp add: allM_def addMismatch_def)

lemma traversal_invariant:
  "(\<forall>el sel st. allM P st \<longrightarrow> allM P (check el sel st)) \<Longrightarrow>
     allM P st \<Longrightarrow> allM P (processElement check el path st)"
  "(\<forall>el sel st. allM P st \<longrightarrow> allM P (check el sel st)) \<Longrightarrow>
     allM P st \<Longrightarrow> allM P (processChildren check sel idx ch st)"
proof (induction check el path st and check sel idx ch st rule: processElement_processChildren.induct)
  case (1 check tn i cn styles ch path st)
  then show ?case by (simp add: Let_def)
next
  case (2 check sel index st)
  then show ?case by simp
next
  case (3 check sel index child rest st)
  then show ?case by simp
qed

lemma severity_steps:
  "getColorSeverity d = stepSeverity 20 10 d"
  "getFontSizeSeverity d = stepSeverity 8 4 d"
  "getSpacingSeverity d = stepSeverity 16 8 d"
  "getBorderRadiusSeverity d = stepSeverity 8 4 d"
  "getLineHeightSeverity d = stepSeverity (3 / 10) (2 / 10) d"
  by (simp_all add: getColorSeverity_def getFontSizeSeverity_def getSpacingSeverity_def
      getBorderRadiusSeverity_def getLineHeightSeverity_def stepSeverity_def thresholds)

lemma allM_reportColor:
  assumes "allM P st" and "\<And>m. colorShape m \<Longrightarrow> P m"
    and "(cat = Color \<and> prop \<in> {''color'', ''backgroundColor''}) \<or> (cat = Border \<and> prop = ''borderColor'')"
  shows "allM P (reportColor lib cs el sel cat prop st)"
proof (cases "computedStyles el prop")
  case None
  with assms(1) show ?thesis by (simp add: reportColor_def)
next
  case (Some v)
  show ?thesis
  proof (cases "findColorMismatch lib v cs")
    case None
    with Some assms(1) show ?thesis by (simp add: reportColor_def)
  next
    case (Some cm)
    have "allM P (addMismatch cat prop (Text (cmExpected cm)) (Text (cmActual cm)) (elementRef el sel)
                 None (cmDeviation cm) (getColorSeverity (cmDeviation cm)) st)"
      using assms(3)
      by (intro allM_addMismatch assms(1) assms(2)) (auto simp: colorShape_def severity_steps)
    with Some \<open>computedStyles el prop = Some v\<close> show ?thesis by (simp add: reportColor_def)
  qed
qed

lemma allM_colorChecks:
  assumes "allM P st" and "\<And>m. colorShape m \<Longrightarrow> P m"
  shows "allM P (colorChecks lib cs el sel st)"
  using assms by (simp add: colorChecks_def Let_def allM_reportColor)

lemma allM_compareColors:
  assumes "allM P st" and "\<And>m. cs \<noteq> [] \<Longrightarrow> colorShape m \<Longrightarrow> P m"
  shows "allM P (compareColors lib tree cs st)"
  using assms by (simp add: compareColors_def traversal_invariant(2) allM_colorChecks)

lemma allM_fontSizeCheck:
  assumes "allM P st" and "\<And>m. typographyShape m \<Longrightarrow> P m"
  shows "allM P (fontSizeCheck lib typos el sel st)"
  unfolding fontSizeCheck_def Let_def
  by (auto split: option.splits intro!: allM_addMismatch assms
      simp: typographyShape_def severity_steps)

lemma allM_fontWeightCheck:
  assumes "allM P st" and "\<And>m. typographyShape m \<Longrightarrow> P m"
  shows "allM P (fontWeightCheck lib typos el sel st)"
  unfolding fontWeightCheck_def Let_def
  by (auto split: option.splits intro!: allM_addMismatch assms simp: typographyShape_def)

lemma allM_lineHeightLoop:
  assumes "allM P st" and "\<And>m. typographyShape m \<Longrightarrow> P m"
  shows "allM P (lineHeightLoop actualRatio fs actualText ref typos st)"
proof (induction typos)
  case Nil
  then show ?case by (simp add: assms(1))
next
  case (Cons typo rest)
  then show ?case
    by (auto simp: Let_def typographyShape_def severity_steps intro!: allM_addMismatch assms)
qed

lemma allM_lineHeightCheck:
  assumes "allM P st" and "\<And>m. typographyShape m \<Longrightarrow> P m"
  shows "allM P (lineHeightCheck lib typos el sel st)"
  using assms
  by (simp add: lineHeightCheck_def Let_def allM_lineHeightLoop split: option.splits)

lemma allM_compareTypography:
  assumes "allM P st" and "\<And>m. typos \<noteq> [] \<Longrightarrow> typographyShape m \<Longrightarrow> P m"
  shows "allM P (compareTypography lib tree typos st)"
  using assms
  by (simp add: compareTypography_def traversal_invariant(2) typographyChecks_def
      allM_fontSizeCheck allM_fontWeightCheck allM_lineHeightCheck)

lemma allM_spacingPropCheck:
  assumes "allM P st" and "\<And>m. spacingShape m \<Longrightarrow> P m"
    and "prop \<in> set (paddingProps @ marginProps @ [''gap''])"
  shows "allM P (spacingPropCheck lib vals el sel prop st)"
  unfolding spacingPropCheck_def Let_def using assms(3)
  by (auto split: option.splits intro!: allM_addMismatch assms(1,2)
      simp: spacingShape_def severity_steps)

lemma allM_fold_spacingPropCheck:
  assumes "allM P st" and "\<And>m. spacingShape m \<Longrightarrow> P m"
    and "set props \<subseteq> set (paddingProps @ marginProps @ [''gap''])"
  shows "allM P (fold (spacingPropCheck lib vals el sel) props st)"
  using assms(1,3)
proof (induction props arbitrary: st)
  case Nil
  then show ?case by simp
next
  case (Cons p props)
  from Cons.prems have "allM P (spacingPropCheck lib vals el sel p st)"
    by (intro allM_spacingPropCheck assms(2)) auto
  with Cons show ?case by simp
qed

lemma allM_borderRadiusCheck:
  assumes "allM P st" and "\<And>m. spacingShape m \<Longrightarrow> P m"
  shows "allM P (borderRadiusCheck lib vals el sel st)"
  unfolding borderRadiusCheck_def Let_def
  by (auto split: option.splits intro!: allM_addMismatch assms simp: spacingShape_def severity_steps)

lemma allM_spacingChecks:
  assumes "allM P st" and "\<And>m. spacingShape m \<Longrightarrow> P m"
  shows "allM P (spacingChecks lib vals el sel st)"
proof -
  let ?st1 = "fold (spacingPropCheck lib vals el sel) paddingProps st"
  let ?st2 = "fold (spacingPropCheck lib vals el sel) marginProps ?st1"
  have 1: "allM P ?st1"
    by (rule allM_fold_spacingPropCheck[OF assms(1)]) (auto intro: assms(2))
  have 2: "allM P ?st2"
    by (rule allM_fold_spacingPropCheck[OF 1]) (auto intro: assms(2))
  have 3: "allM P (gapCheck lib vals el sel ?st2)"
    using 2 by (simp add: gapCheck_def allM_spacingPropCheck assms(2))
  show ?thesis
    unfolding spacingChecks_def Let_def using 3 assms(2) by (rule allM_borderRadiusCheck)
qed

lemma allM_compareSpacing:
  assumes "allM P st" and "\<And>m. sp \<noteq> [] \<Longrightarrow> spacingShape m \<Longrightarrow> P m"
  shows "allM P (compareSpacing lib tree sp st)"
  using assms by (simp add: compareSpacing_def traversal_invariant(2) allM_spacingChecks)

lemma allM_elementStyleStep:
  assumes "allM P st" and "\<And>m. componentShape m \<Longrightarrow> P m" and "prop \<in> set styleProps"
  shows "allM P (elementStyleStep lib el fc prop st)"
  unfolding elementStyleStep_def Let_def using assms(3)
  by (auto split: option.splits intro!: allM_addMismatch assms(1,2) simp: componentShape_def)

lemma allM_fold_elementStyleStep:
  assumes "allM P st" and "\<And>m. componentShape m \<Longrightarrow> P m" and "set props \<subseteq> set styleProps"
  shows "allM P (fold (elementStyleStep lib el fc) props st)"
  using assms(1,3)
proof (induction props arbitrary: st)
  case Nil
  then show ?case by simp
next
  case (Cons p props)
  from Cons.prems have "allM P (elementStyleStep lib el fc p st)"
    by (intro allM_elementStyleStep assms(2)) auto
  with Cons show ?case by simp
qed

lemma allM_compareComponents:
  assumes "allM P st" and "\<And>m. fcs \<noteq> [] \<Longrightarrow> componentShape m \<Longrightarrow> P m"
  shows "allM P (compareComponents lib tree fcs st)"
proof (cases "fcs = []")
  case True
  with assms(1) show ?thesis by (simp add: compareComponents_def)
next
  case False
  with assms(2) have sh: "\<And>m. componentShape m \<Longrightarrow> P m" by simp
  have "allM P (fold (componentStep lib tree) gs st')" if "allM P st'" for gs st'
    using that
  proof (induction gs arbitrary: st')
    case Nil
    then show ?case by simp
  next
    case (Cons g gs)
    have "allM P (componentStep lib tree g st')"
      using Cons.prems sh
      by (simp add: componentStep_def compareElementStyles_def allM_fold_elementStyleStep
          split: option.splits)
    with Cons show ?case by simp
  qed
  with assms(1) show ?thesis by (simp add: compareComponents_def)
qed

lemma runComparisons_raisedBy:
  "allM (raisedBy f) (runComparisons lib w f)"
proof -
  let ?tk = "designTokens f" and ?tree = "domTree w"
  let ?st1 = "compareColors lib ?tree (colors ?tk) \<lparr>mismatches = [], mismatchIdCounter = 0\<rparr>"
  let ?st2 = "compareTypography lib ?tree (typography ?tk) ?st1"
  let ?st3 = "compareSpacing lib ?tree (spacing ?tk) ?st2"
  have 0: "allM (raisedBy f) \<lparr>mismatches = [], mismatchIdCounter = 0\<rparr>"
    by (simp add: allM_def)
  have 1: "allM (raisedBy f) ?st1"
    by (rule allM_compareColors[OF 0]) (simp add: raisedBy_def)
  have 2: "allM (raisedBy f) ?st2"
    by (rule allM_compareTypography[OF 1]) (simp add: raisedBy_def)
  have 3: "allM (raisedBy f) ?st3"
    by (rule allM_compareSpacing[OF 2]) (simp add: raisedBy_def)
  have 4: "allM (raisedBy f) (compareComponents lib ?tree (components f) ?st3)"
    by (rule allM_compareComponents[OF 3]) (simp add: raisedBy_def)
  show ?thesis
  proof (cases "components f \<noteq> [] \<and> domTree w \<noteq> []")
    case True
    then have "runComparisons lib w f = compareComponents lib ?tree (components f) ?st3"
      by (simp add: runComparisons_def Let_def)
    with 4 show ?thesis by simp
  next
    case False
    then have "runComparisons lib w f = ?st3"
      unfolding runComparisons_def Let_def by (simp only: if_False)
    with 3 show ?thesis by simp
  qed
qed

lemma categoryScore_none:
  assumes "\<forall>m \<in> set ms. category m \<noteq> c"
  shows "categoryScore ms c = 100"
proof -
  from assms have "filter (\<lambda>m. category m = c) ms = []" by (simp add: filter_empty_conv)
  then show ?thesis by (simp add: categoryScore_def)
qed

lemma compare_fields:
  "resultMismatches (compare lib w f) = mismatches (runComparisons lib w f)"
  "categoryScores (compare lib w f) = calculateCategoryScores (mismatches (runComparisons lib w f))"
  by (simp_all add: compare_def Let_def)

lemma component_categories:
  assumes "componentShape m"
  shows "category m \<in> {Typography, Spacing, Border}"
  using assms by (auto simp: componentShape_def styleProps_def getCategoryForProperty_def)

lemma result_raisedBy:
  assumes "m \<in> set (resultMismatches (compare lib w f))"
  shows "raisedBy f m"
  using assms runComparisons_raisedBy[of f lib w] by (simp add: compare_fields allM_def)

text \<open>
  Claim C7, as amended. For every style tree and design, the comparison returns a
  result, and: when the colour tokens are empty, no mismatch of the result is in the
  colour category or on the border colour, and the colour score is 100; when the
  typography tokens are empty, every typography mismatch of the result comes from
  component matching, and with no components supplied the typography score is 100;
  when the spacing tokens are empty, every spacing or border-radius mismatch of the
  result comes from component matching, and with no components supplied the spacing
  score is 100.
\<close>

theorem empty_collection_raises_no_token_mismatch:
  "(colors (designTokens f) = [] \<longrightarrow>
      (\<forall>m \<in> set (resultMismatches (compare lib w f)).
          category m \<noteq> Color \<and> property m \<noteq> ''borderColor'')
      \<and> map_of (categoryScores (compare lib w f)) Color = Some 100)
   \<and> (typography (designTokens f) = [] \<longrightarrow>
      (\<forall>m \<in> set (resultMismatches (compare lib w f)).
          category m = Typography \<longrightarrow> figmaComponent m \<noteq> None)
      \<and> (components f = [] \<longrightarrow> map_of (categoryScores (compare lib w f)) Typography = Some 100))
   \<and> (spacing (designTokens f) = [] \<longrightarrow>
      (\<forall>m \<in> set (resultMismatches (compare lib w f)).
          category m = Spacing \<or> property m = ''borderRadius'' \<longrightarrow> figmaComponent m \<noteq> None)
      \<and> (components f = [] \<longrightarrow> map_of (categoryScores (compare lib w f)) Spacing = Some 100))"
proof (intro conjI impI)
  assume e: "colors (designTokens f) = []"
  show c: "\<forall>m \<in> set (resultMismatches (compare lib w f)).
          category m \<noteq> Color \<and> property m \<noteq> ''borderColor''"
  proof
    fix m assume "m \<in> set (resultMismatches (compare lib w f))"
    from result_raisedBy[OF this] e
    consider "typographyShape m" | "spacingShape m" | "componentShape m"
      by (auto simp: raisedBy_def)
    then show "category m \<noteq> Color \<and> property m \<noteq> ''borderColor''"
    proof cases
      case 1 then show ?thesis by (auto simp: typographyShape_def)
    next
      case 2 then show ?thesis
        by (auto simp: spacingShape_def paddingProps_def marginProps_def)
    next
      case 3 then show ?thesis
        by (auto simp: componentShape_def styleProps_def getCategoryForProperty_def)
    qed
  qed
  then have "\<forall>m \<in> set (mismatches (runComparisons lib w f)). category m \<noteq> Color"
    by (simp add: compare_fields)
  then show "map_of (categoryScores (compare lib w f)) Color = Some 100"
    by (simp add: compare_fields map_of_calculateCategoryScores categoryScore_none)
next
  assume e: "typography (designTokens f) = []"
  show "\<forall>m \<in> set (resultMismatches (compare lib w f)).
          category m = Typography \<longrightarrow> figmaComponent m \<noteq> None"
  proof (intro ballI impI)
    fix m assume "m \<in> set (resultMismatches (compare lib w f))" and t: "category m = Typography"
    from result_raisedBy[OF this(1)] e t show "figmaComponent m \<noteq> None"
      by (auto simp: raisedBy_def colorShape_def spacingShape_def componentShape_def)
  qed
next
  assume e: "typography (designTokens f) = []" and n: "components f = []"
  have "\<forall>m \<in> set (mismatches (runComparisons lib w f)). category m \<noteq> Typography"
  proof
    fix m assume "m \<in> set (mismatches (runComparisons lib w f))"
    then have "raisedBy f m" using runComparisons_raisedBy[of f lib w] by (simp add: allM_def)
    with e n show "category m \<noteq> Typography"
      by (auto simp: raisedBy_def colorShape_def spacingShape_def)
  qed
  then show "map_of (categoryScores (compare lib w f)) Typography = Some 100"
    by (simp add: compare_fields map_of_calculateCategoryScores categoryScore_none)
next
  assume e: "spacing (designTokens f) = []"
  show "\<forall>m \<in> set (resultMismatches (compare lib w f)).
          category m = Spacing \<or> property m = ''borderRadius'' \<longrightarrow> figmaComponent m \<noteq> None"
  proof (intro ballI impI)
    fix m assume "m \<in> set (resultMismatches (compare lib w f))"
      and t: "category m = Spacing \<or> property m = ''borderRadius''"
    from result_raisedBy[OF this(1)] e t show "figmaComponent m \<noteq> None"
      by (auto simp: raisedBy_def colorShape_def typographyShape_def componentShape_def)
  qed
next
  assume e: "spacing (designTokens f) = []" and n: "components f = []"
  have "\<forall>m \<in> set (mismatches (runComparisons lib w f)). category m \<noteq> Spacing"
  proof
    fix m assume "m \<in> set (mismatches (runComparisons lib w f))"
    then have "raisedBy f m" using runComparisons_raisedBy[of f lib w] by (simp add: allM_def)
    with e n show "category m \<noteq> Spacing"
      by (auto simp: raisedBy_def colorShape_def typographyShape_def)
  qed
  then show "map_of (categoryScores (compare lib w f)) Spacing = Some 100"
    by (simp add: compare_fields map_of_calculateCategoryScores categoryScore_none)
qed

text \<open>
  Witness for C7: the paragraph against a design without tokens and without components.
\<close>

theorem empty_collection_raises_no_token_mismatch_witness:
  "colors (designTokens emptyDesign) = [] \<and> typography (designTokens emptyDesign) = []
   \<and> spacing (designTokens emptyDesign) = [] \<and> components emptyDesign = []
   \<and> map_of (categoryScores (compare sampleLib \<lparr>domTree = [paragraphElement]\<rparr> emptyDesign)) Color = Some 100
   \<and> map_of (categoryScores (compare sampleLib \<lparr>domTree = [paragraphElement]\<rparr> emptyDesign)) Typography = Some 100
   \<and> map_of (categoryScores (compare sampleLib \<lparr>domTree = [paragraphElement]\<rparr> emptyDesign)) Spacing = Some 100"
  using empty_collection_raises_no_token_mismatch[of emptyDesign sampleLib "\<lparr>domTree = [paragraphElement]\<rparr>"]
  by (simp add: emptyDesign_def)

text \<open>
  Counterexample to C7 as stated: the typography tokens are empty, but the component
  \<open>Button\<close> matches the element and its font size differs by 16px, so a typography
  mismatch is raised and the typography score is 90.
\<close>

theorem empty_typography_component_counterexample:
  "typography (designTokens buttonDesign) = []
   \<and> map_of (categoryScores (compare sampleLib \<lparr>domTree = [buttonElement]\<rparr> buttonDesign)) Typography
       = Some 90"
  by (simp add: engine_defs buttonElement_def buttonDesign_def calculateCategoryScores_def
      categories_def categoryScore_def)

text \<open>
  Claim C8, as amended. Every mismatch of a result that was raised by the token passes
  (it carries no component name) has the severity given by the step function of its
  deviation: thresholds 20 and 10 for the colour properties, 8 and 4 for the font size,
  16 and 8 for the padding and margin sides and the gap, 8 and 4 for the border radius;
  for the line height the deviation is a hundred times the ratio difference, and the
  thresholds 0.3 and 0.2 apply to the ratio difference; a font-weight mismatch is
  minor. Every mismatch raised by component matching is major.
\<close>

theorem token_severity_is_step_function:
  assumes "m \<in> set (resultMismatches (compare lib w f))"
  shows "(figmaComponent m = None \<longrightarrow>
            (property m \<in> {''color'', ''backgroundColor'', ''borderColor''}
               \<longrightarrow> severity m = stepSeverity 20 10 (deviation m))
          \<and> (property m = ''fontSize'' \<longrightarrow> severity m = stepSeverity 8 4 (deviation m))
          \<and> (property m \<in> set (paddingProps @ marginProps @ [''gap''])
               \<longrightarrow> severity m = stepSeverity 16 8 (deviation m))
          \<and> (property m = ''borderRadius'' \<longrightarrow> severity m = stepSeverity 8 4 (deviation m))
          \<and> (property m = ''lineHeight''
               \<longrightarrow> (\<exists>d. deviation m = n_mul d (Num 100)
                        \<and> severity m = stepSeverity (3 / 10) (2 / 10) d))
          \<and> (property m = ''fontWeight'' \<longrightarrow> severity m = Minor))
       \<and> (figmaComponent m \<noteq> None \<longrightarrow> severity m = Major)"
proof -
  from result_raisedBy[OF assms]
  consider "colorShape m" | "typographyShape m" | "spacingShape m" | "componentShape m"
    by (auto simp: raisedBy_def)
  then show ?thesis
  proof cases
    case 1 then show ?thesis
      by (auto simp: colorShape_def paddingProps_def marginProps_def)
  next
    case 2 then show ?thesis
      by (auto simp: typographyShape_def paddingProps_def marginProps_def)
  next
    case 3 then show ?thesis
      by (auto simp: spacingShape_def paddingProps_def marginProps_def)
  next
    case 4 then show ?thesis by (auto simp: componentShape_def)
  qed
qed

text \<open>
  Witness for C8: the line-height mismatch of the paragraph example, of ratio
  difference 0.5, is critical.
\<close>

theorem token_severity_is_step_function_witness:
  "lineHeightMismatch \<in> set (resultMismatches (compare sampleLib \<lparr>domTree = [paragraphElement]\<rparr> typographyDesign))
   \<and> figmaComponent lineHeightMismatch = None \<and> property lineHeightMismatch = ''lineHeight''
   \<and> (\<exists>d. deviation lineHeightMismatch = n_mul d (Num 100)
          \<and> severity lineHeightMismatch = stepSeverity (3 / 10) (2 / 10) d)"
proof -
  have h: "lineHeightMismatch \<in> set (resultMismatches (compare sampleLib \<lparr>domTree = [paragraphElement]\<rparr> typographyDesign))"
    by (simp add: engine_defs paragraphElement_def typographyDesign_def bodyToken_def
        headingToken_def lineHeightMismatch_def)
  have p: "figmaComponent lineHeightMismatch = None" "property lineHeightMismatch = ''lineHeight''"
    by (simp_all add: lineHeightMismatch_def)
  from token_severity_is_step_function[OF h] p show ?thesis using h by simp
qed

text \<open>
  Counterexample to C8 as stated: the component \<open>Card\<close> matches the element and the
  paddings differ by 5px. The mismatch is in the spacing category with deviation 5 and
  is major, where the spacing thresholds give minor.
\<close>

theorem component_severity_counterexample:
  "resultMismatches (compare sampleLib \<lparr>domTree = [cardElement]\<rparr> cardDesign) =
     [\<lparr>mismatchId = 1, category = Spacing, severity = Major, property = ''padding'',
       expectedValue = Text ''13px'', actualValue = Text ''8px'',
       element = \<lparr>selector = SelClass ''card'', refTagName = ''div'', refId = None,
                  refClassName = Some ''card primary''\<rparr>,
       figmaComponent = Some ''Card'', deviation = Num 5\<rparr>]
   \<and> getSpacingSeverity (Num 5) = Minor"
  by (simp add: engine_defs cardElement_def cardDesign_def)

section \<open>Properties of the spacing checks\<close>

lemma spacingPropCheck_other:
  assumes "q \<noteq> p \<or> skipped lib el q"
  shows "filter (\<lambda>m. property m = p) (mismatches (spacingPropCheck lib vals el sel q st))
           = filter (\<lambda>m. property m = p) (mismatches st)"
  using assms
  by (auto simp: spacingPropCheck_def Let_def addMismatch_def skipped_def n_gt_def
      split: option.splits)

lemma fold_spacingPropCheck_other:
  assumes "\<And>q. q \<noteq> p \<or> skipped lib el q"
  shows "filter (\<lambda>m. property m = p) (mismatches (fold (spacingPropCheck lib vals el sel) props st))
           = filter (\<lambda>m. property m = p) (mismatches st)"
proof (induction props arbitrary: st)
  case Nil
  show ?case by simp
next
  case (Cons q props)
  have "filter (\<lambda>m. property m = p)
          (mismatches (fold (spacingPropCheck lib vals el sel) (q # props) st))
        = filter (\<lambda>m. property m = p) (mismatches (spacingPropCheck lib vals el sel q st))"
    using Cons.IH[of "spacingPropCheck lib vals el sel q st"] by simp
  also have "\<dots> = filter (\<lambda>m. property m = p) (mismatches st)"
    by (rule spacingPropCheck_other[OF assms])
  finally show ?case .
qed

lemma borderRadiusCheck_other:
  assumes "''borderRadius'' \<noteq> p \<or> skipped lib el ''borderRadius''"
  shows "filter (\<lambda>m. property m = p) (mismatches (borderRadiusCheck lib vals el sel st))
           = filter (\<lambda>m. property m = p) (mismatches st)"
  using assms
  by (auto simp: borderRadiusCheck_def Let_def addMismatch_def skipped_def n_gt_def
      split: option.splits)

text \<open>
  The checks of one element: if the value of \<open>p\<close> reads as zero or does not parse,
  they add no mismatch on \<open>p\<close>.
\<close>

lemma spacingChecks_skip_zero:
  assumes "p \<in> set (paddingProps @ marginProps @ [''gap'', ''borderRadius''])"
      and "parseFloatOf lib (computedStyles el p) = NaN \<or> parseFloatOf lib (computedStyles el p) = Num 0"
  shows "filter (\<lambda>m. property m = p) (mismatches (spacingChecks lib spacingValues el sel st))
           = filter (\<lambda>m. property m = p) (mismatches st)"
proof -
  let ?f = "filter (\<lambda>m. property m = p)"
  let ?st1 = "fold (spacingPropCheck lib spacingValues el sel) paddingProps st"
  let ?st2 = "fold (spacingPropCheck lib spacingValues el sel) marginProps ?st1"
  let ?st3 = "gapCheck lib spacingValues el sel ?st2"
  have sk: "q \<noteq> p \<or> skipped lib el q" for q
    using assms(2) by (auto simp: skipped_def)
  have 1: "?f (mismatches ?st1) = ?f (mismatches st)"
    by (rule fold_spacingPropCheck_other[OF sk])
  have 2: "?f (mismatches ?st2) = ?f (mismatches ?st1)"
    by (rule fold_spacingPropCheck_other[OF sk])
  have 3: "?f (mismatches ?st3) = ?f (mismatches ?st2)"
    using spacingPropCheck_other[OF sk, where q = "''gap''"] by (simp add: gapCheck_def)
  have 4: "?f (mismatches (borderRadiusCheck lib spacingValues el sel ?st3)) = ?f (mismatches ?st3)"
    by (rule borderRadiusCheck_other[OF sk])
  show ?thesis
    unfolding spacingChecks_def Let_def using 1 2 3 4 by simp
qed

lemma allM_positive_spacingPropCheck:
  assumes "allM P st" and "\<And>m. positiveActual m \<Longrightarrow> P m"
  shows "allM P (spacingPropCheck lib vals el sel prop st)"
  unfolding spacingPropCheck_def Let_def
  by (auto split: option.splits intro!: allM_addMismatch assms simp: positiveActual_def)

lemma allM_positive_fold_spacingPropCheck:
  assumes "allM P st" and "\<And>m. positiveActual m \<Longrightarrow> P m"
  shows "allM P (fold (spacingPropCheck lib vals el sel) props st)"
  using assms(1)
proof (induction props arbitrary: st)
  case Nil
  then show ?case by simp
next
  case (Cons q props)
  from Cons.prems have "allM P (spacingPropCheck lib vals el sel q st)"
    by (rule allM_positive_spacingPropCheck) (rule assms(2))
  with Cons show ?case by simp
qed

lemma allM_positive_borderRadiusCheck:
  assumes "allM P st" and "\<And>m. positiveActual m \<Longrightarrow> P m"
  shows "allM P (borderRadiusCheck lib vals el sel st)"
  unfolding borderRadiusCheck_def Let_def
  by (auto split: option.splits intro!: allM_addMismatch assms simp: positiveActual_def)

lemma allM_positive_spacingChecks:
  assumes "allM P st" and "\<And>m. positiveActual m \<Longrightarrow> P m"
  shows "allM P (spacingChecks lib vals el sel st)"
proof -
  let ?st1 = "fold (spacingPropCheck lib vals el sel) paddingProps st"
  let ?st2 = "fold (spacingPropCheck lib vals el sel) marginProps ?st1"
  have 1: "allM P ?st1"
    using assms(1) by (rule allM_positive_fold_spacingPropCheck) (rule assms(2))
  have 2: "allM P ?st2"
    using 1 by (rule allM_positive_fold_spacingPropCheck) (rule assms(2))
  have 3: "allM P (gapCheck lib vals el sel ?st2)"
    using 2 by (simp add: gapCheck_def allM_positive_spacingPropCheck assms(2))
  show ?thesis
    unfolding spacingChecks_def Let_def using 3 by (rule allM_positive_borderRadiusCheck) (rule assms(2))
qed

lemma allM_positive_compareSpacing:
  assumes "allM P st" and "\<And>m. positiveActual m \<Longrightarrow> P m"
  shows "allM P (compareSpacing lib tree sp st)"
  using assms by (simp add: compareSpacing_def traversal_invariant(2) allM_positive_spacingChecks)

lemma runComparisons_tokenSpacingPositive:
  "allM tokenSpacingPositive (runComparisons lib w f)"
proof -
  let ?tk = "designTokens f" and ?tree = "domTree w"
  let ?st1 = "compareColors lib ?tree (colors ?tk) \<lparr>mismatches = [], mismatchIdCounter = 0\<rparr>"
  let ?st2 = "compareTypography lib ?tree (typography ?tk) ?st1"
  let ?st3 = "compareSpacing lib ?tree (spacing ?tk) ?st2"
  have 0: "allM tokenSpacingPositive \<lparr>mismatches = [], mismatchIdCounter = 0\<rparr>"
    by (simp add: allM_def)
  have 1: "allM tokenSpacingPositive ?st1"
    by (rule allM_compareColors[OF 0])
       (auto simp: tokenSpacingPositive_def colorShape_def spacingPassProps_def paddingProps_def
          marginProps_def)
  have 2: "allM tokenSpacingPositive ?st2"
    by (rule allM_compareTypography[OF 1])
       (auto simp: tokenSpacingPositive_def typographyShape_def spacingPassProps_def
          paddingProps_def marginProps_def)
  have 3: "allM tokenSpacingPositive ?st3"
    by (rule allM_positive_compareSpacing[OF 2]) (simp add: tokenSpacingPositive_def)
  have 4: "allM tokenSpacingPositive (compareComponents lib ?tree (components f) ?st3)"
    by (rule allM_compareComponents[OF 3]) (auto simp: tokenSpacingPositive_def componentShape_def)
  show ?thesis
  proof (cases "components f \<noteq> [] \<and> domTree w \<noteq> []")
    case True
    then have "runComparisons lib w f = compareComponents lib ?tree (components f) ?st3"
      by (simp add: runComparisons_def Let_def)
    with 4 show ?thesis by simp
  next
    case False
    then have "runComparisons lib w f = ?st3"
      unfolding runComparisons_def Let_def by (simp only: if_False)
    with 3 show ?thesis by simp
  qed
qed

text \<open>
  Claim C10, as amended. In the token-based spacing pass, a padding side, margin side,
  gap or border radius whose computed value reads as zero or does not parse raises no
  mismatch, whatever the spacing values: the checks of the element add no mismatch on
  that property; and in every result of the comparison, a mismatch on one of these
  properties that was raised by a token pass (it carries no component name) reports an
  actual value above zero, the parsed value of its element. Mismatches raised by
  component matching are left out: that path compares padding, margin and border
  radius without the test for a value above zero.
\<close>

theorem token_spacing_checks_skip_zero_values:
  "(p \<in> set spacingPassProps
      \<and> (parseFloatOf lib (computedStyles el p) = NaN \<or> parseFloatOf lib (computedStyles el p) = Num 0)
    \<longrightarrow> filter (\<lambda>m. property m = p) (mismatches (spacingChecks lib spacingValues el sel st))
          = filter (\<lambda>m. property m = p) (mismatches st))
   \<and> (m \<in> set (resultMismatches (compare lib w f)) \<and> figmaComponent m = None
        \<and> property m \<in> set spacingPassProps
    \<longrightarrow> (\<exists>v. actualValue m = NumPx v \<and> n_gt v (Num 0)))"
proof (intro conjI impI)
  assume "p \<in> set spacingPassProps
      \<and> (parseFloatOf lib (computedStyles el p) = NaN \<or> parseFloatOf lib (computedStyles el p) = Num 0)"
  then show "filter (\<lambda>m. property m = p) (mismatches (spacingChecks lib spacingValues el sel st))
          = filter (\<lambda>m. property m = p) (mismatches st)"
    by (intro spacingChecks_skip_zero) (simp_all add: spacingPassProps_def)
next
  assume a: "m \<in> set (resultMismatches (compare lib w f)) \<and> figmaComponent m = None
        \<and> property m \<in> set spacingPassProps"
  then have "tokenSpacingPositive m"
    using runComparisons_tokenSpacingPositive[of lib w f] by (simp add: compare_fields allM_def)
  with a show "\<exists>v. actualValue m = NumPx v \<and> n_gt v (Num 0)"
    by (simp add: tokenSpacingPositive_def positiveActual_def)
qed

text \<open>
  Witness for C10: a top padding of 0px against the single spacing value 8 adds no
  mismatch, and the mismatch that the comparison raises for the left padding of 24px
  reports that value.
\<close>

theorem token_spacing_checks_skip_zero_values_witness:
  "''paddingTop'' \<in> set spacingPassProps
   \<and> parseFloatOf sampleLib (computedStyles flatElement ''paddingTop'') = Num 0
   \<and> filter (\<lambda>m. property m = ''paddingTop'')
        (mismatches (spacingChecks sampleLib [8] flatElement SelBody \<lparr>mismatches = [], mismatchIdCounter = 0\<rparr>))
       = []
   \<and> paddingMismatch \<in> set (resultMismatches (compare sampleLib \<lparr>domTree = [flatElement]\<rparr> radiusDesign))
   \<and> figmaComponent paddingMismatch = None
   \<and> property paddingMismatch \<in> set spacingPassProps
   \<and> (\<exists>v. actualValue paddingMismatch = NumPx v \<and> n_gt v (Num 0))"
proof -
  have a: "''paddingTop'' \<in> set spacingPassProps"
    by (simp add: spacingPassProps_def paddingProps_def)
  have b: "parseFloatOf sampleLib (computedStyles flatElement ''paddingTop'') = Num 0"
    by (simp add: flatElement_def sampleLib_def sampleParseFloat_def isDigit_def)
  have c: "paddingMismatch \<in> set (resultMismatches (compare sampleLib \<lparr>domTree = [flatElement]\<rparr> radiusDesign))"
    by (simp add: engine_defs flatElement_def radiusDesign_def paddingMismatch_def)
  have d: "figmaComponent paddingMismatch = None" "property paddingMismatch \<in> set spacingPassProps"
    by (simp_all add: paddingMismatch_def spacingPassProps_def paddingProps_def)
  from token_spacing_checks_skip_zero_values[of "''paddingTop''" sampleLib flatElement "[8]" SelBody
      "\<lparr>mismatches = [], mismatchIdCounter = 0\<rparr>" paddingMismatch "\<lparr>domTree = [flatElement]\<rparr>" radiusDesign]
    a b c d
  show ?thesis by simp
qed

text \<open>
  Counterexample to C10 as stated: the border radius of the element reads as zero, and
  the spacing pass raises nothing for it; but the component \<open>Avatar\<close> matches the
  element, and component matching raises a border-radius mismatch on the value 0px.
\<close>

theorem zero_radius_component_counterexample:
  "parseFloatOf sampleLib (computedStyles squareElement ''borderRadius'') = Num 0
   \<and> resultMismatches (compare sampleLib \<lparr>domTree = [squareElement]\<rparr> avatarDesign) =
        [\<lparr>mismatchId = 1, category = Border, severity = Major, property = ''borderRadius'',
          expectedValue = Text ''8px'', actualValue = Text ''0px'',
          element = \<lparr>selector = SelClass ''avatar'', refTagName = ''img'', refId = None,
                     refClassName = Some ''avatar''\<rparr>,
          figmaComponent = Some ''Avatar'', deviation = Num 8\<rparr>]"
  by (simp add: engine_defs squareElement_def avatarDesign_def)

section \<open>Tolerance of the border radius and of the line height\<close>

text \<open>
  Claim C5, at an input where the code departs from it. The border radius of 11px is
  3px from the only candidate, 8, which exceeds the border-radius tolerance of 2px; the
  comparison raises no mismatch, because \<open>findSpacingMismatch\<close> has already dropped
  every difference within the spacing tolerance of 4px.
\<close>

theorem border_radius_uses_spacing_tolerance:
  "n_gt (n_abs (n_sub (parseFloat sampleLib ''11px'') (Num 8))) (Num borderRadius_pixels)
   \<and> findSpacingMismatch (parseFloat sampleLib ''11px'') [8] = None
   \<and> resultMismatches (compare sampleLib \<lparr>domTree = [radiusElement]\<rparr> radiusDesign) = []"
  by (simp add: engine_defs radiusElement_def radiusDesign_def)

text \<open>
  Claim C6, at an input where the code departs from it. The paragraph has exactly the
  font size and the line height of the body token, its closest token, whose ratio it
  matches; the comparison still raises a line-height mismatch, against the heading
  token, the first token in order whose ratio differs by more than 0.1.
\<close>

theorem line_height_flags_first_deviating_token:
  "resultMismatches (compare sampleLib \<lparr>domTree = [paragraphElement]\<rparr> typographyDesign) =
     [\<lparr>mismatchId = 1, category = Typography, severity = Critical, property = ''lineHeight'',
       expectedValue = NumPx (Num 64), actualValue = Text ''24px'',
       element = \<lparr>selector = SelNth SelBody 1, refTagName = ''p'', refId = None, refClassName = None\<rparr>,
       figmaComponent = None, deviation = Num 50\<rparr>]"
  by (simp add: engine_defs paragraphElement_def typographyDesign_def bodyToken_def headingToken_def)

section \<open>Properties of the pixel diff engine\<close>

lemma merge_first: "mergeNearbyRegions [boxA, boxB, boxC] 20 = [boxA, boxBC]"
  by code_simp

lemma merge_second:
  "mergeNearbyRegions [boxA, boxBC] 20 = [\<lparr>bbX = 0, bbY = 0, bbWidth = 300, bbHeight = 45\<rparr>]"
  by code_simp

text \<open>
  Claim C4, at an input where the code departs from it. The first box is near neither
  of the other two and is output as it is; the other two merge into a box that overlaps
  it. The output of the merge holds two overlapping regions, and merging the output
  again gives a different list.
\<close>

theorem merge_leaves_overlapping_regions:
  "mergeNearbyRegions [boxA, boxB, boxC] 20 = [boxA, boxBC]
   \<and> regionsOverlapOrNear boxA boxBC 20
   \<and> mergeNearbyRegions (mergeNearbyRegions [boxA, boxB, boxC] 20) 20
       = [\<lparr>bbX = 0, bbY = 0, bbWidth = 300, bbHeight = 45\<rparr>]
   \<and> mergeNearbyRegions (mergeNearbyRegions [boxA, boxB, boxC] 20) 20
       \<noteq> mergeNearbyRegions [boxA, boxB, boxC] 20"
proof -
  have n: "regionsOverlapOrNear boxA boxBC 20"
    by (simp add: regionsOverlapOrNear_def boxA_def boxBC_def)
  show ?thesis
    using n by (simp add: merge_first merge_second)
qed

text \<open>
  On equal buffers no pixel differs, whatever the output buffer holds: the count of the
  per-pixel comparison stays where it started.
\<close>

lemma matchPixels_identical:
  assumes "0 \<le> matchThreshold opts"
  shows "fst (matchPixels lib opts d d w h positions (mismatched, out)) = mismatched"
  using assms
proof (induction positions arbitrary: out)
  case Nil
  show ?case by simp
next
  case (Cons i rest)
  then show ?case by (simp add: pixelDistance_def)
qed

lemma pixelmatch_identical:
  assumes "0 \<le> matchThreshold opts"
  shows "fst (pixelmatch lib d d out w h opts) = 0"
  using assms by (simp add: pixelmatch_def matchPixels_identical)

text \<open>
  Claim C9. An image that decodes, of at least one pixel, is compared against itself,
  with a threshold that is not negative (its range is 0 to 1). The PNG codec is a
  parameter, and the diff image is assumed to encode. Then the comparison returns a
  result with no mismatched pixel, a match percentage of 100 and no diff area.
\<close>

theorem identical_images_match:
  assumes "decodeBase64Image lib imageBase64 = Some img"
      and "0 < pngWidth img * pngHeight img"
      and "0 \<le> matchThreshold (mergeOptions opts)"
      and "packPNG lib ((newPNG (pngWidth img) (pngHeight img))
             \<lparr>pngData := snd (pixelmatch lib (pngData img) (pngData img)
                 (pngData (newPNG (pngWidth img) (pngHeight img))) (pngWidth img) (pngHeight img)
                 (mergeOptions opts))\<rparr>) = Some encoded"
  shows "VisualDiffEngine_compare lib imageBase64 imageBase64 opts =
           Inr \<lparr>diffImage = encoded, matchPercentage = Num 100, mismatchedPixels = 0,
                totalPixels = pngWidth img * pngHeight img, diffAreas = []\<rparr>"
proof -
  let ?w = "pngWidth img" and ?h = "pngHeight img"
  let ?r = "pixelmatch lib (pngData img) (pngData img) (pngData (newPNG ?w ?h)) ?w ?h (mergeOptions opts)"
  have pct: "roundedPercentage (?w * ?h) 0 = Num 100"
    using assms(2) by (simp add: roundedPercentage_def Let_def)
  have zero: "fst ?r = 0"
    using assms(3) by (rule pixelmatch_identical)
  then have r: "?r = (0, snd ?r)" by (metis prod.collapse)
  have "VisualDiffEngine_compare lib imageBase64 imageBase64 opts =
          (case ?r of (mismatched, diffData) \<Rightarrow>
             (case packPNG lib ((newPNG ?w ?h)\<lparr>pngData := diffData\<rparr>) of
                None \<Rightarrow> Inl EncodeFailed
              | Some diffImageBase64 \<Rightarrow>
                  Inr \<lparr>diffImage = diffImageBase64,
                       matchPercentage = roundedPercentage (?w * ?h) mismatched,
                       mismatchedPixels = mismatched, totalPixels = ?w * ?h,
                       diffAreas = findDiffAreas ((newPNG ?w ?h)\<lparr>pngData := diffData\<rparr>) mismatched\<rparr>))"
    using assms(1) by (simp add: VisualDiffEngine_compare_def normalizeImageSizes_def Let_def)
  also have "\<dots> = Inr \<lparr>diffImage = encoded, matchPercentage = Num 100, mismatchedPixels = 0,
                totalPixels = ?w * ?h, diffAreas = []\<rparr>"
    by (subst r) (simp add: assms(4) pct findDiffAreas_def)
  finally show ?thesis .
qed

lemma sample_blank: "replicate 4 (0::8 word) = [0, 0, 0, 0]"
  by (simp add: numeral_eq_Suc)

lemma sample_pixelAt: "pixelAt [255, 0, 0, 255] 0 = (255, 0, 0, 255)"
  by (simp add: pixelAt_def byteOr0_def byteAt_def)

lemma sample_blend: "sampleBlend (255, 0, 0, 255) (1 / 10) = (237, 237, 237, 255)"
  by (simp add: Let_def)

lemma sample_write: "writePixel [0, 0, 0, 0] 0 (237, 237, 237, 255) = [237, 237, 237, 255]"
  by (simp add: numeral_2_eq_2 numeral_3_eq_3)

lemma sample_pixelmatch:
  "pixelmatch samplePixelLib [255, 0, 0, 255] [255, 0, 0, 255] [0, 0, 0, 0] 1 1 (mergeOptions noOptions)
     = (0, [237, 237, 237, 255])"
  by (simp add: pixelmatch_def pixelDistance_def sample_pixelAt sample_blend sample_write
      samplePixelLib_def mergeOptions_def noOptions_def DEFAULT_OPTIONS_def
      del: sampleBlend.simps writePixel.simps)

text \<open>
  Witness for C9: the PNG of one red pixel, given as a data URL, compared against
  itself under the default options. The diff image is the pixel blended to grey 237.
\<close>

theorem identical_images_match_witness:
  "VisualDiffEngine_compare samplePixelLib (''data:image/png;base64,'' @ redPng)
       (''data:image/png;base64,'' @ redPng) noOptions =
     Inr \<lparr>diffImage = greyPng, matchPercentage = Num 100, mismatchedPixels = 0, totalPixels = 1,
          diffAreas = []\<rparr>"
proof -
  have a: "decodeBase64Image samplePixelLib (''data:image/png;base64,'' @ redPng) = Some redImage"
    by (simp add: decodeBase64Image_def stripDataUrl_def isWordChar_def samplePixelLib_def redPng_def)
  have b: "0 < pngWidth redImage * pngHeight redImage"
    by (simp add: redImage_def)
  have c: "0 \<le> matchThreshold (mergeOptions noOptions)"
    by (simp add: mergeOptions_def noOptions_def DEFAULT_OPTIONS_def)
  have n: "newPNG (pngWidth redImage) (pngHeight redImage)
             = \<lparr>pngWidth = 1, pngHeight = 1, pngData = [0, 0, 0, 0]\<rparr>"
    by (simp add: redImage_def newPNG_def sample_blank)
  have p: "pngData redImage = [255, 0, 0, 255]" "pngWidth redImage = 1" "pngHeight redImage = 1"
    by (simp_all add: redImage_def)
  have e: "snd (pixelmatch samplePixelLib (pngData redImage) (pngData redImage)
                 (pngData (newPNG (pngWidth redImage) (pngHeight redImage))) (pngWidth redImage)
                 (pngHeight redImage) (mergeOptions noOptions)) = [237, 237, 237, 255]"
    unfolding n unfolding p by (simp only: PNG.select_convs sample_pixelmatch snd_conv)
  have d: "packPNG samplePixelLib ((newPNG (pngWidth redImage) (pngHeight redImage))
             \<lparr>pngData := snd (pixelmatch samplePixelLib (pngData redImage) (pngData redImage)
                 (pngData (newPNG (pngWidth redImage) (pngHeight redImage))) (pngWidth redImage)
                 (pngHeight redImage) (mergeOptions noOptions))\<rparr>) = Some greyPng"
    unfolding e unfolding n by (simp add: samplePixelLib_def greyImage_def)
  from identical_images_match[OF a b c d] show ?thesis by (simp add: redImage_def)
qed

end
